theory Spec2Isabelle
  imports Main "HOL-Library.Sublist"
begin

section \<open>The document store\<close>

text \<open>
  The backend keeps one table per entity. Every row has an opaque identifier assigned at
  insertion and never reused; a table is kept here as the list of its rows with their
  identifiers, in insertion order (the order in which an unordered query returns them).
  Identifiers are drawn from one counter of the store. Strings hold the UTF-8 bytes of the
  source's text, so non-ASCII literals are written byte by byte.
\<close>

type_synonym id = nat

type_synonym 'a table = "(id \<times> 'a) list"

datatype error =
    NonexistentDocument id
  | ValidationError string
  | DeleteProjectFailed error

definition tget :: "'a table \<Rightarrow> id \<Rightarrow> 'a option" where
  "tget t i = map_of t i"

definition thas :: "'a table \<Rightarrow> id \<Rightarrow> bool" where
  "thas t i = (i \<in> fst ` set t)"

text \<open>\<open>db.patch\<close> and \<open>db.delete\<close> throw on an identifier that has no document.\<close>

definition tpatch :: "id \<Rightarrow> ('a \<Rightarrow> 'a) \<Rightarrow> 'a table \<Rightarrow> error + 'a table" where
  "tpatch i f t =
     (if thas t i then Inr (map (\<lambda>(j, r). if j = i then (j, f r) else (j, r)) t)
      else Inl (NonexistentDocument i))"

definition tdelete :: "id \<Rightarrow> 'a table \<Rightarrow> error + 'a table" where
  "tdelete i t =
     (if thas t i then Inr (filter (\<lambda>(j, r). j \<noteq> i) t)
      else Inl (NonexistentDocument i))"

text \<open>JavaScript's \<open>a || b\<close> on optional values whose present values are all truthy.\<close>

definition orElse :: "'a option \<Rightarrow> 'a option \<Rightarrow> 'a option" where
  "orElse a b = (case a of Some x \<Rightarrow> Some x | None \<Rightarrow> b)"

section \<open>Data model (schema.ts)\<close>

datatype role = Client | Developer

datatype lang = EN | ES

datatype message_type = MText | MSystem | MStatusUpdate | MFile

datatype thread_status = TNew | TAcknowledged | TInProgress | TResolved | TClosed

datatype thread_priority = Normal | Urgent

datatype project_type = Presentation | Cards | LeadGen | Website | OtherType

datatype project_status = NotStarted | InProgress | Review | Complete | Paused

datatype project_priority = Low | Medium | High | PUrgent

datatype notification_type = Telegram | Email

datatype notification_status = Pending | Sent | Failed

datatype feedback_category = Suggestion | Bug | ChangeRequest

datatype feedback_status = FNew | FInProgress | FCompleted | FReleased

datatype feedback_priority = FLow | FMedium | FHigh

record client =
  cli_name :: string
  cli_email :: "string option"
  cli_language :: lang
  cli_tech_level :: "nat option"
  cli_timezone :: "string option"
  cli_created_at :: string
  cli_last_active :: "string option"

record project =
  prj_client_id :: id
  prj_name :: string
  prj_type :: project_type
  prj_status :: project_status
  prj_priority :: project_priority
  prj_icon :: string
  prj_color :: string
  prj_description :: "string option"
  prj_deadline :: "string option"
  prj_is_archived :: "bool option"
  prj_created_at :: string
  prj_updated_at :: string

text \<open>
  The unread counters are \<open>v.number()\<close> fields that only ever receive 0, 1 or an
  increment by one; they are natural numbers here. \<open>is_archived\<close> is optional: a row
  that was never given the field has \<open>None\<close>.
\<close>

record thread =
  thr_project_id :: id
  thr_title :: string
  thr_status :: thread_status
  thr_priority :: thread_priority
  thr_created_by :: role
  thr_last_activity :: string
  unread_count_client :: nat
  unread_count_developer :: nat
  thr_is_archived :: "bool option"
  thr_created_at :: string

record message =
  msg_thread_id :: id
  msg_author :: role
  msg_content :: string
  msg_message_type :: message_type
  msg_is_private :: bool
  msg_is_edited :: bool
  msg_created_at :: string
  msg_edited_at :: "string option"
  msg_original_content :: "string option"
  msg_original_language :: "lang option"
  msg_translated_content :: "string option"
  msg_target_language :: "lang option"
  msg_translation_enabled :: "bool option"
  msg_file_id :: "id option"
  msg_file_name :: "string option"
  msg_file_type :: "string option"
  msg_file_size :: "nat option"
  msg_file_url :: "string option"

record project_folder =
  fld_project_id :: id
  fld_name :: string
  fld_parent_folder_id :: "id option"
  fld_color :: "string option"
  fld_icon :: "string option"
  fld_created_by :: role
  fld_created_at :: string

record project_file =
  pf_project_id :: id
  pf_folder_id :: "id option"
  pf_file_id :: id
  pf_message_id :: "id option"
  pf_file_name :: string
  pf_file_type :: string
  pf_file_size :: nat
  pf_file_url :: "string option"
  pf_tags :: "string list"
  pf_uploaded_by :: role
  pf_uploaded_at :: string
  pf_moved_at :: "string option"

text \<open>
  A feedback row carries the store's \<open>_creationTime\<close>; the migration only ever reads
  \<open>_creationTime.toString()\<close>, which is the string kept in \<open>fb_creation_time\<close>.
\<close>

record feedback =
  fb_category :: feedback_category
  fb_subject :: string
  fb_description :: string
  fb_status :: feedback_status
  fb_priority :: feedback_priority
  fb_developer_notes :: "string option"
  fb_client_response :: "string option"
  fb_creation_time :: string

record legacy_feedback =
  lf_category :: feedback_category
  lf_subject :: string
  lf_description :: string
  lf_status :: feedback_status
  lf_priority :: feedback_priority
  lf_developer_notes :: "string option"
  lf_client_response :: "string option"
  lf_migrated_to_thread :: "id option"
  lf_migration_date :: "string option"
  lf_created_at :: string

record notification =
  ntf_type :: notification_type
  ntf_recipient :: string
  ntf_message :: string
  ntf_thread_id :: "id option"
  ntf_project_id :: "id option"
  ntf_sent_at :: "string option"
  ntf_status :: notification_status
  ntf_created_at :: string

record db =
  clients :: "client table"
  projects :: "project table"
  threads :: "thread table"
  messages :: "message table"
  project_folders :: "project_folder table"
  project_files :: "project_file table"
  feedbacks :: "feedback table"
  legacy_feedbacks :: "legacy_feedback table"
  notifications :: "notification table"
  next_id :: id

text \<open>
  The store's invariant on identifiers: within a table no identifier occurs twice, and
  every identifier in use was drawn from the counter, so the next one is fresh.
\<close>

definition wf_table :: "'a table \<Rightarrow> id \<Rightarrow> bool" where
  "wf_table t n = (distinct (map fst t) \<and> (\<forall>i \<in> fst ` set t. i < n))"

definition wf_db :: "db \<Rightarrow> bool" where
  "wf_db d =
     (wf_table (clients d) (next_id d) \<and> wf_table (projects d) (next_id d) \<and>
      wf_table (threads d) (next_id d) \<and> wf_table (messages d) (next_id d) \<and>
      wf_table (project_folders d) (next_id d) \<and> wf_table (project_files d) (next_id d) \<and>
      wf_table (feedbacks d) (next_id d) \<and> wf_table (legacy_feedbacks d) (next_id d) \<and>
      wf_table (notifications d) (next_id d))"

definition insert_client :: "client \<Rightarrow> db \<Rightarrow> id \<times> db" where
  "insert_client r d =
     (next_id d, d\<lparr>clients := clients d @ [(next_id d, r)], next_id := Suc (next_id d)\<rparr>)"

definition insert_project :: "project \<Rightarrow> db \<Rightarrow> id \<times> db" where
  "insert_project r d =
     (next_id d, d\<lparr>projects := projects d @ [(next_id d, r)], next_id := Suc (next_id d)\<rparr>)"

definition insert_thread :: "thread \<Rightarrow> db \<Rightarrow> id \<times> db" where
  "insert_thread r d =
     (next_id d, d\<lparr>threads := threads d @ [(next_id d, r)], next_id := Suc (next_id d)\<rparr>)"

definition insert_message :: "message \<Rightarrow> db \<Rightarrow> id \<times> db" where
  "insert_message r d =
     (next_id d, d\<lparr>messages := messages d @ [(next_id d, r)], next_id := Suc (next_id d)\<rparr>)"

definition insert_folder :: "project_folder \<Rightarrow> db \<Rightarrow> id \<times> db" where
  "insert_folder r d =
     (next_id d,
      d\<lparr>project_folders := project_folders d @ [(next_id d, r)], next_id := Suc (next_id d)\<rparr>)"

definition insert_legacy :: "legacy_feedback \<Rightarrow> db \<Rightarrow> id \<times> db" where
  "insert_legacy r d =
     (next_id d,
      d\<lparr>legacy_feedbacks := legacy_feedbacks d @ [(next_id d, r)], next_id := Suc (next_id d)\<rparr>)"

definition insert_notification :: "notification \<Rightarrow> db \<Rightarrow> id \<times> db" where
  "insert_notification r d =
     (next_id d,
      d\<lparr>notifications := notifications d @ [(next_id d, r)], next_id := Suc (next_id d)\<rparr>)"

section \<open>Notifications (notifications.ts)\<close>

text \<open>
  JavaScript counts a string in UTF-16 units: one for a character up to U+FFFF, two for a
  character above. On the UTF-8 bytes kept here a character is a lead byte followed by
  its continuation bytes; only the four-byte characters take two units.
  \<open>s.slice(0, n)\<close> keeps the first \<open>n\<close> units; a cut between the two units of a character
  leaves its first unit alone, written here as the three bytes of that code.
\<close>

definition is_continuation :: "char \<Rightarrow> bool" where
  "is_continuation c = (0x80 \<le> (of_char c :: nat) \<and> (of_char c :: nat) < 0xC0)"

definition utf16_units :: "char \<Rightarrow> nat" where
  "utf16_units c =
     (if (of_char c :: nat) < 0x80 then 1
      else if (of_char c :: nat) < 0xC0 then 0
      else if (of_char c :: nat) < 0xF0 then 1 else 2)"

definition utf16_length :: "string \<Rightarrow> nat" where
  "utf16_length s = sum_list (map utf16_units s)"

definition high_surrogate :: "string \<Rightarrow> string" where
  "high_surrogate ch =
     (case ch of
        [b0, b1, b2, b3] \<Rightarrow>
          (let cp = ((of_char b0 :: nat) mod 8) * 262144 + ((of_char b1 :: nat) mod 64) * 4096 +
                    ((of_char b2 :: nat) mod 64) * 64 + (of_char b3 :: nat) mod 64;
               hs = 0xD800 + (cp - 0x10000) div 1024
           in [char_of (0xE0 + hs div 4096), char_of (0x80 + (hs div 64) mod 64),
               char_of (0x80 + hs mod 64)])
      | _ \<Rightarrow> [])"

function utf16_take :: "nat \<Rightarrow> string \<Rightarrow> string" where
  "utf16_take n [] = []"
| "utf16_take n (c # cs) =
     (if utf16_units c \<le> n
      then c # takeWhile is_continuation cs @
           utf16_take (n - utf16_units c) (dropWhile is_continuation cs)
      else if n = 1 then high_surrogate (c # takeWhile is_continuation cs)
      else [])"
  by pat_completeness auto
termination
  by (relation "measure (\<lambda>(n, s). length s)")
     (auto simp: length_dropWhile_le less_Suc_eq_le)

text \<open>
  What \<open>sendTelegramAlert\<close> takes from outside the store: the chat id of the
  environment, the rendering of the alert text (a template over the client name, the
  project name, the thread title, the truncated message and the thread id, with a
  localised date), the outcome of the HTTP call, and the two clock readings.
\<close>

datatype tg_outcome = TgOk | TgHttpError string | TgException string

record tg_env =
  tg_chat_id :: "string option"
  tg_render :: "string \<Rightarrow> string \<Rightarrow> string \<Rightarrow> string \<Rightarrow> id \<Rightarrow> string"
  tg_outcome :: tg_outcome
  tg_created_at :: string
  tg_done_at :: string

definition tg_fail :: "string \<Rightarrow> string \<Rightarrow> notification \<Rightarrow> notification" where
  "tg_fail text err n =
     n\<lparr>ntf_status := Failed, ntf_message := text @ [CHR 0x0A, CHR 0x0A] @ ''Error: '' @ err\<rparr>"

definition sendTelegramAlert ::
  "tg_env \<Rightarrow> id \<Rightarrow> id \<Rightarrow> string \<Rightarrow> role \<Rightarrow> db \<Rightarrow> error + (db \<times> id option)" where
  "sendTelegramAlert env thread_id project_id msg author d =
     (if author \<noteq> Client then Inr (d, None)
      else case tget (threads d) thread_id of
        None \<Rightarrow> Inr (d, None)
      | Some thread \<Rightarrow>
         (case tget (projects d) project_id of
            None \<Rightarrow> Inr (d, None)
          | Some project \<Rightarrow>
             (let client_name =
                    (case tget (clients d) (prj_client_id project) of
                       None \<Rightarrow> ''Cliente''
                     | Some c \<Rightarrow> if cli_name c = [] then ''Cliente'' else cli_name c);
                  truncated = (if utf16_length msg > 100 then utf16_take 100 msg @ ''...''
                               else msg);
                  text = tg_render env client_name (prj_name project) (thr_title thread)
                           truncated thread_id;
                  (nid, d1) = insert_notification
                    \<lparr>ntf_type = Telegram,
                     ntf_recipient = (case tg_chat_id env of None \<Rightarrow> [] | Some c \<Rightarrow> c),
                     ntf_message = text,
                     ntf_thread_id = Some thread_id,
                     ntf_project_id = Some project_id,
                     ntf_sent_at = None,
                     ntf_status = Pending,
                     ntf_created_at = tg_created_at env\<rparr> d;
                  upd = (case tg_outcome env of
                           TgOk \<Rightarrow> (\<lambda>n. n\<lparr>ntf_status := Sent, ntf_sent_at := Some (tg_done_at env)\<rparr>)
                         | TgHttpError e \<Rightarrow> tg_fail text e
                         | TgException e \<Rightarrow> tg_fail text e)
              in case tpatch nid upd (notifications d1) of
                   Inl e \<Rightarrow> Inl e
                 | Inr ns \<Rightarrow> Inr (d1\<lparr>notifications := ns\<rparr>, Some nid))))"

section \<open>Messages (messages.ts)\<close>

record send_args =
  sa_thread_id :: id
  sa_content :: string
  sa_author :: role
  sa_message_type :: "message_type option"
  sa_is_private :: "bool option"
  sa_original_content :: "string option"
  sa_original_language :: "lang option"
  sa_translated_content :: "string option"
  sa_target_language :: "lang option"
  sa_translation_enabled :: "bool option"

text \<open>\<open>!args.is_private\<close>: an absent flag counts as not private.\<close>

definition not_private :: "bool option \<Rightarrow> bool" where
  "not_private p = (p \<noteq> Some True)"

definition newUnreadClient :: "role \<Rightarrow> bool option \<Rightarrow> thread \<Rightarrow> nat" where
  "newUnreadClient author is_private thread =
     (if author = Developer \<and> not_private is_private then unread_count_client thread + 1
      else if author = Client then 0 else unread_count_client thread)"

definition newUnreadDeveloper :: "role \<Rightarrow> thread \<Rightarrow> nat" where
  "newUnreadDeveloper author thread =
     (if author = Client then unread_count_developer thread + 1
      else if author = Developer then 0 else unread_count_developer thread)"

definition sendMessage :: "string \<Rightarrow> tg_env \<Rightarrow> send_args \<Rightarrow> db \<Rightarrow> error + (db \<times> id)" where
  "sendMessage now env a d =
     (let (messageId, d1) = insert_message
            \<lparr>msg_thread_id = sa_thread_id a,
             msg_author = sa_author a,
             msg_content = sa_content a,
             msg_message_type = (case sa_message_type a of None \<Rightarrow> MText | Some t \<Rightarrow> t),
             msg_is_private = (sa_is_private a = Some True),
             msg_is_edited = False,
             msg_created_at = now,
             msg_edited_at = None,
             msg_original_content = sa_original_content a,
             msg_original_language = sa_original_language a,
             msg_translated_content = sa_translated_content a,
             msg_target_language = sa_target_language a,
             msg_translation_enabled = sa_translation_enabled a,
             msg_file_id = None,
             msg_file_name = None,
             msg_file_type = None,
             msg_file_size = None,
             msg_file_url = None\<rparr> d
      in case tget (threads d1) (sa_thread_id a) of
           None \<Rightarrow> Inr (d1, messageId)
         | Some thread \<Rightarrow>
            (case tpatch (sa_thread_id a)
                    (\<lambda>t. t\<lparr>thr_last_activity := now,
                           unread_count_client :=
                             newUnreadClient (sa_author a) (sa_is_private a) thread,
                           unread_count_developer :=
                             newUnreadDeveloper (sa_author a) thread\<rparr>)
                    (threads d1) of
               Inl e \<Rightarrow> Inl e
             | Inr ts \<Rightarrow>
                (case tpatch (thr_project_id thread) (\<lambda>p. p\<lparr>prj_updated_at := now\<rparr>)
                        (projects d1) of
                   Inl e \<Rightarrow> Inl e
                 | Inr ps \<Rightarrow>
                    (let d2 = d1\<lparr>threads := ts, projects := ps\<rparr>
                     in if sa_author a = Client \<and> not_private (sa_is_private a)
                        then (case tget (projects d2) (thr_project_id thread) of
                                None \<Rightarrow> Inr (d2, messageId)
                              | Some project \<Rightarrow>
                                 (case sendTelegramAlert env (sa_thread_id a)
                                         (thr_project_id thread) (sa_content a) (sa_author a) d2 of
                                    Inl e \<Rightarrow> Inl e
                                  | Inr (d3, _) \<Rightarrow> Inr (d3, messageId)))
                        else Inr (d2, messageId)))))"

definition deleted_marker :: string where
  "deleted_marker = ''*Mensaje eliminado*''"

definition deleteMessage :: "string \<Rightarrow> id \<Rightarrow> role \<Rightarrow> db \<Rightarrow> error + (db \<times> id option)" where
  "deleteMessage now message_id deleter d =
     (case tget (messages d) message_id of
        None \<Rightarrow> Inr (d, None)
      | Some m \<Rightarrow>
         if msg_author m \<noteq> deleter \<and> deleter \<noteq> Developer
         then Inl (ValidationError ''No puedes eliminar mensajes de otros usuarios'')
         else (case tpatch message_id
                      (\<lambda>r. r\<lparr>msg_content := deleted_marker, msg_is_edited := True,
                             msg_edited_at := Some now\<rparr>)
                      (messages d) of
                 Inl e \<Rightarrow> Inl e
               | Inr ms \<Rightarrow> Inr (d\<lparr>messages := ms\<rparr>, Some message_id)))"

definition addDeveloperNote :: "string \<Rightarrow> id \<Rightarrow> string \<Rightarrow> db \<Rightarrow> error + (db \<times> id)" where
  "addDeveloperNote now thread_id note d =
     (let (messageId, d1) = insert_message
            \<lparr>msg_thread_id = thread_id,
             msg_author = Developer,
             msg_content = [CHR 0xF0, CHR 0x9F, CHR 0x94, CHR 0x92] @ '' **Nota privada:** '' @ note,
             msg_message_type = MText,
             msg_is_private = True,
             msg_is_edited = False,
             msg_created_at = now,
             msg_edited_at = None,
             msg_original_content = None,
             msg_original_language = None,
             msg_translated_content = None,
             msg_target_language = None,
             msg_translation_enabled = None,
             msg_file_id = None,
             msg_file_name = None,
             msg_file_type = None,
             msg_file_size = None,
             msg_file_url = None\<rparr> d
      in case tpatch thread_id (\<lambda>t. t\<lparr>thr_last_activity := now\<rparr>) (threads d1) of
           Inl e \<Rightarrow> Inl e
         | Inr ts \<Rightarrow> Inr (d1\<lparr>threads := ts\<rparr>, messageId))"

section \<open>Threads (threads.ts)\<close>

record create_args =
  ca_project_id :: id
  ca_title :: string
  ca_priority :: "thread_priority option"
  ca_initial_message :: "string option"
  ca_created_by :: "role option"
  ca_original_content :: "string option"
  ca_original_language :: "lang option"
  ca_translated_content :: "string option"
  ca_target_language :: "lang option"
  ca_translation_enabled :: "bool option"

text \<open>An optional string is truthy when it is present and not empty.\<close>

definition truthy :: "string option \<Rightarrow> bool" where
  "truthy s = (case s of None \<Rightarrow> False | Some x \<Rightarrow> x \<noteq> [])"

text \<open>
  \<open>createThread\<close> reads the clock once; the nested \<open>sendMessage\<close> reads it again
  (\<open>now_msg\<close>).
\<close>

definition createThread ::
  "string \<Rightarrow> string \<Rightarrow> tg_env \<Rightarrow> create_args \<Rightarrow> db \<Rightarrow> error + (db \<times> id)" where
  "createThread now now_msg env a d =
     (let (threadId, d1) = insert_thread
            \<lparr>thr_project_id = ca_project_id a,
             thr_title = ca_title a,
             thr_status = TNew,
             thr_priority = (case ca_priority a of None \<Rightarrow> Normal | Some p \<Rightarrow> p),
             thr_created_by = (case ca_created_by a of None \<Rightarrow> Client | Some r \<Rightarrow> r),
             thr_last_activity = now,
             unread_count_client = (if ca_created_by a = Some Developer then 1 else 0),
             unread_count_developer = (if ca_created_by a = Some Client then 1 else 0),
             thr_is_archived = None,
             thr_created_at = now\<rparr> d
      in case (if truthy (ca_initial_message a)
               then (case sendMessage now_msg env
                            \<lparr>sa_thread_id = threadId,
                             sa_content = (if truthy (ca_translated_content a)
                                           then the (ca_translated_content a)
                                           else the (ca_initial_message a)),
                             sa_author = (case ca_created_by a of None \<Rightarrow> Client | Some r \<Rightarrow> r),
                             sa_message_type = Some MText,
                             sa_is_private = Some False,
                             sa_original_content = ca_original_content a,
                             sa_original_language = ca_original_language a,
                             sa_translated_content = ca_translated_content a,
                             sa_target_language = ca_target_language a,
                             sa_translation_enabled = ca_translation_enabled a\<rparr> d1 of
                       Inl e \<Rightarrow> Inl e
                     | Inr (d2, _) \<Rightarrow> Inr d2)
               else Inr d1) of
           Inl e \<Rightarrow> Inl e
         | Inr d2 \<Rightarrow>
            (case tpatch (ca_project_id a) (\<lambda>p. p\<lparr>prj_updated_at := now\<rparr>) (projects d2) of
               Inl e \<Rightarrow> Inl e
             | Inr ps \<Rightarrow> Inr (d2\<lparr>projects := ps\<rparr>, threadId)))"

definition toggleThreadArchive :: "string \<Rightarrow> id \<Rightarrow> bool \<Rightarrow> db \<Rightarrow> error + db" where
  "toggleThreadArchive now thread_id archived d =
     (case tpatch thread_id
             (\<lambda>t. t\<lparr>thr_is_archived := Some archived, thr_last_activity := now\<rparr>) (threads d) of
        Inl e \<Rightarrow> Inl e
      | Inr ts \<Rightarrow> Inr (d\<lparr>threads := ts\<rparr>))"

definition markThreadAsRead :: "id \<Rightarrow> role \<Rightarrow> db \<Rightarrow> error + db" where
  "markThreadAsRead thread_id reader d =
     (case tpatch thread_id
             (\<lambda>t. if reader = Client then t\<lparr>unread_count_client := 0\<rparr>
                  else t\<lparr>unread_count_developer := 0\<rparr>) (threads d) of
        Inl e \<Rightarrow> Inl e
      | Inr ts \<Rightarrow> Inr (d\<lparr>threads := ts\<rparr>))"

definition unreadCount :: "role \<Rightarrow> thread \<Rightarrow> nat" where
  "unreadCount viewer thread =
     (if viewer = Developer then unread_count_developer thread else unread_count_client thread)"

text \<open>
  The query keeps the rows whose \<open>is_archived\<close> field equals \<open>false\<close>; a row without
  the field does not compare equal to \<open>false\<close>.
\<close>

definition getTotalUnreadCount :: "role \<Rightarrow> db \<Rightarrow> nat" where
  "getTotalUnreadCount viewer d =
     foldl (\<lambda>total (i, thread). total + unreadCount viewer thread) 0
       (filter (\<lambda>(i, thread). thr_is_archived thread = Some False) (threads d))"

section \<open>File organization (projectSetup.ts, projectFiles.ts)\<close>

text \<open>\<open>s.includes(sub)\<close>: \<open>sub\<close> occurs in \<open>s\<close> as a contiguous run.\<close>

fun str_includes :: "string \<Rightarrow> string \<Rightarrow> bool" where
  "str_includes [] sub = (sub = [])"
| "str_includes (c # cs) sub = (prefix sub (c # cs) \<or> str_includes cs sub)"

definition startsWith :: "string \<Rightarrow> string \<Rightarrow> bool" where
  "startsWith s p = prefix p s"

record default_folder =
  df_name :: string
  df_name_es :: string
  df_icon :: string
  df_color :: string

definition defaultFolders :: "default_folder list" where
  "defaultFolders =
     [\<lparr>df_name = ''Images'', df_name_es = ''Im'' @ [CHR 0xC3, CHR 0xA1] @ ''genes'',
       df_icon = [CHR 0xF0, CHR 0x9F, CHR 0x96, CHR 0xBC, CHR 0xEF, CHR 0xB8, CHR 0x8F], df_color = ''#10B981''\<rparr>,
      \<lparr>df_name = ''Documents'', df_name_es = ''Documentos'',
       df_icon = [CHR 0xF0, CHR 0x9F, CHR 0x93, CHR 0x84], df_color = ''#3B82F6''\<rparr>,
      \<lparr>df_name = ''PDFs'', df_name_es = ''PDFs'',
       df_icon = [CHR 0xF0, CHR 0x9F, CHR 0x93, CHR 0x91], df_color = ''#EF4444''\<rparr>,
      \<lparr>df_name = ''Other'', df_name_es = ''Otros'',
       df_icon = [CHR 0xF0, CHR 0x9F, CHR 0x93, CHR 0x81], df_color = ''#6B7280''\<rparr>]"

record created_folder =
  cf_id :: id
  cf_name :: string
  cf_icon :: string
  cf_color :: string

record setup_result =
  sr_message :: string
  sr_foldersCreated :: nat
  sr_folders :: "created_folder list option"

definition projectFolders :: "db \<Rightarrow> id \<Rightarrow> project_folder table" where
  "projectFolders d p = filter (\<lambda>(i, f). fld_project_id f = p) (project_folders d)"

text \<open>The loop of \<open>setupDefaultFolders\<close> over the default folders.\<close>

fun createFolders ::
  "string \<Rightarrow> id \<Rightarrow> role \<Rightarrow> default_folder list \<Rightarrow> db \<times> created_folder list \<Rightarrow>
   db \<times> created_folder list" where
  "createFolders now p created_by [] (d, created) = (d, created)"
| "createFolders now p created_by (folder # rest) (d, created) =
     (let (folderId, d1) = insert_folder
            \<lparr>fld_project_id = p,
             fld_name = df_name folder,
             fld_parent_folder_id = None,
             fld_color = Some (df_color folder),
             fld_icon = Some (df_icon folder),
             fld_created_by = created_by,
             fld_created_at = now\<rparr> d
      in createFolders now p created_by rest
           (d1, created @ [\<lparr>cf_id = folderId, cf_name = df_name folder,
                            cf_icon = df_icon folder, cf_color = df_color folder\<rparr>]))"

definition setupDefaultFolders :: "string \<Rightarrow> id \<Rightarrow> role \<Rightarrow> db \<Rightarrow> db \<times> setup_result" where
  "setupDefaultFolders now p created_by d =
     (if length (projectFolders d p) > 0
      then (d, \<lparr>sr_message = ''Default folders already exist'', sr_foldersCreated = 0,
                sr_folders = None\<rparr>)
      else (let (d1, createdFolders) = createFolders now p created_by defaultFolders (d, [])
            in (d1, \<lparr>sr_message = ''Default folders created successfully'',
                     sr_foldersCreated = length createdFolders,
                     sr_folders = Some createdFolders\<rparr>)))"

record folder_map =
  fm_images :: "id option"
  fm_documents :: "id option"
  fm_pdfs :: "id option"
  fm_other :: "id option"

definition folderMapStep :: "folder_map \<Rightarrow> id \<times> project_folder \<Rightarrow> folder_map" where
  "folderMapStep fm x =
     (case x of (i, folder) \<Rightarrow>
        if fld_name folder = ''Images'' then fm\<lparr>fm_images := Some i\<rparr>
        else if fld_name folder = ''Documents'' then fm\<lparr>fm_documents := Some i\<rparr>
        else if fld_name folder = ''PDFs'' then fm\<lparr>fm_pdfs := Some i\<rparr>
        else if fld_name folder = ''Other'' then fm\<lparr>fm_other := Some i\<rparr>
        else fm)"

definition folderMapOf :: "project_folder table \<Rightarrow> folder_map" where
  "folderMapOf folders =
     foldl folderMapStep
       \<lparr>fm_images = None, fm_documents = None, fm_pdfs = None, fm_other = None\<rparr> folders"

definition isDocumentType :: "string \<Rightarrow> bool" where
  "isDocumentType fileType =
     (str_includes fileType ''document'' \<or> str_includes fileType ''text'' \<or>
      str_includes fileType ''word'' \<or> str_includes fileType ''excel'' \<or>
      str_includes fileType ''powerpoint'')"

definition firstFolderId :: "project_folder table \<Rightarrow> id option" where
  "firstFolderId folders = (case folders of [] \<Rightarrow> None | (i, f) # rest \<Rightarrow> Some i)"

text \<open>
  \<open>getAutoFolderId\<close> first runs \<open>setupDefaultFolders\<close> (whose failure it would ignore;
  the mutation has no failing step), then picks the folder from the file type.
\<close>

definition getAutoFolderId :: "string \<Rightarrow> id \<Rightarrow> string \<Rightarrow> db \<Rightarrow> db \<times> id option" where
  "getAutoFolderId now p fileType d =
     (let (d1, res) = setupDefaultFolders now p Client d;
          folders = projectFolders d1 p;
          folderMap = folderMapOf folders
      in (d1,
          if startsWith fileType ''image/''
          then orElse (fm_images folderMap) (orElse (fm_other folderMap) (firstFolderId folders))
          else if fileType = ''application/pdf''
          then orElse (fm_pdfs folderMap) (orElse (fm_other folderMap) (firstFolderId folders))
          else if isDocumentType fileType
          then orElse (fm_documents folderMap) (orElse (fm_other folderMap) (firstFolderId folders))
          else orElse (fm_other folderMap) (firstFolderId folders)))"

record organize_result =
  or_message :: string
  or_filesOrganized :: nat

definition unorganizedFiles :: "db \<Rightarrow> id \<Rightarrow> project_file table" where
  "unorganizedFiles d p =
     filter (\<lambda>(i, f). pf_project_id f = p \<and> pf_folder_id f = None) (project_files d)"

text \<open>
  The loop of \<open>autoOrganizeFiles\<close> (projectFiles.ts) over the files collected before it
  starts. All clock readings of one run are the parameter \<open>now\<close>.
\<close>

fun organizeLoop ::
  "string \<Rightarrow> id \<Rightarrow> project_file table \<Rightarrow> db \<times> nat \<Rightarrow> error + (db \<times> nat)" where
  "organizeLoop now p [] (d, organizedCount) = Inr (d, organizedCount)"
| "organizeLoop now p ((i, file) # rest) (d, organizedCount) =
     (let (d1, targetFolderId) = getAutoFolderId now p (pf_file_type file) d
      in case targetFolderId of
           None \<Rightarrow> organizeLoop now p rest (d1, organizedCount)
         | Some target \<Rightarrow>
            (case tpatch i (\<lambda>f. f\<lparr>pf_folder_id := Some target, pf_moved_at := Some now\<rparr>)
                    (project_files d1) of
               Inl e \<Rightarrow> Inl e
             | Inr fs \<Rightarrow>
                organizeLoop now p rest (d1\<lparr>project_files := fs\<rparr>, organizedCount + 1)))"

definition autoOrganizeFiles :: "string \<Rightarrow> id \<Rightarrow> db \<Rightarrow> error + (db \<times> organize_result)" where
  "autoOrganizeFiles now p d =
     (case organizeLoop now p (unorganizedFiles d p) (d, 0) of
        Inl e \<Rightarrow> Inl e
      | Inr (d1, organizedCount) \<Rightarrow>
         Inr (d1, \<lparr>or_message = ''Files organized successfully'',
                   or_filesOrganized = organizedCount\<rparr>))"

text \<open>
  \<open>autoOrganizeProjectFiles\<close> (projectSetup.ts) builds the folder map once and repeats the
  same chain on the file type; its target may be absent, and the patch then leaves the
  file without a folder.
\<close>

definition setupTarget :: "folder_map \<Rightarrow> string \<Rightarrow> id option" where
  "setupTarget folderMap fileType =
     (if startsWith fileType ''image/''
      then orElse (fm_images folderMap) (fm_other folderMap)
      else if fileType = ''application/pdf''
      then orElse (fm_pdfs folderMap) (fm_other folderMap)
      else if isDocumentType fileType
      then orElse (fm_documents folderMap) (fm_other folderMap)
      else fm_other folderMap)"

fun setupOrganizeLoop ::
  "string \<Rightarrow> folder_map \<Rightarrow> project_file table \<Rightarrow> db \<times> nat \<Rightarrow> error + (db \<times> nat)" where
  "setupOrganizeLoop now folderMap [] (d, organizedCount) = Inr (d, organizedCount)"
| "setupOrganizeLoop now folderMap ((i, file) # rest) (d, organizedCount) =
     (case tpatch i (\<lambda>f. f\<lparr>pf_folder_id := setupTarget folderMap (pf_file_type file),
                            pf_moved_at := Some now\<rparr>)
             (project_files d) of
        Inl e \<Rightarrow> Inl e
      | Inr fs \<Rightarrow>
         setupOrganizeLoop now folderMap rest (d\<lparr>project_files := fs\<rparr>, organizedCount + 1))"

definition autoOrganizeProjectFiles ::
  "string \<Rightarrow> id \<Rightarrow> db \<Rightarrow> error + (db \<times> organize_result)" where
  "autoOrganizeProjectFiles now p d =
     (case setupOrganizeLoop now (folderMapOf (projectFolders d p)) (unorganizedFiles d p) (d, 0) of
        Inl e \<Rightarrow> Inl e
      | Inr (d1, organizedCount) \<Rightarrow>
         Inr (d1, \<lparr>or_message = ''Files organized successfully'',
                   or_filesOrganized = organizedCount\<rparr>))"

text \<open>
  The bucket that the chain on the file type selects, in the order of its tests; the two
  organizers differ only in how a bucket's folder is found.
\<close>

datatype bucket = Images | Documents | PDFs | Other

definition classifyFile :: "string \<Rightarrow> bucket" where
  "classifyFile fileType =
     (if startsWith fileType ''image/'' then Images
      else if fileType = ''application/pdf'' then PDFs
      else if isDocumentType fileType then Documents
      else Other)"

definition bucketFolder :: "folder_map \<Rightarrow> bucket \<Rightarrow> id option" where
  "bucketFolder folderMap b =
     (case b of Images \<Rightarrow> fm_images folderMap | Documents \<Rightarrow> fm_documents folderMap
      | PDFs \<Rightarrow> fm_pdfs folderMap | Other \<Rightarrow> fm_other folderMap)"

section \<open>Projects (projects.ts)\<close>

text \<open>Deleting the collected rows one by one; a missing row makes the run fail.\<close>

fun deleteAll :: "id list \<Rightarrow> 'a table \<Rightarrow> error + 'a table" where
  "deleteAll [] t = Inr t"
| "deleteAll (i # rest) t =
     (case tdelete i t of Inl e \<Rightarrow> Inl e | Inr t1 \<Rightarrow> deleteAll rest t1)"

definition threadMessages :: "db \<Rightarrow> id \<Rightarrow> message table" where
  "threadMessages d t = filter (\<lambda>(i, m). msg_thread_id m = t) (messages d)"

definition threadNotifications :: "db \<Rightarrow> id \<Rightarrow> notification table" where
  "threadNotifications d t = filter (\<lambda>(i, n). ntf_thread_id n = Some t) (notifications d)"

definition projectNotifications :: "db \<Rightarrow> id \<Rightarrow> notification table" where
  "projectNotifications d p = filter (\<lambda>(i, n). ntf_project_id n = Some p) (notifications d)"

definition projectThreads :: "db \<Rightarrow> id \<Rightarrow> thread table" where
  "projectThreads d p = filter (\<lambda>(i, t). thr_project_id t = p) (threads d)"

text \<open>The loop of \<open>deleteProject\<close> over the threads collected before it starts.\<close>

fun deleteThreads :: "thread table \<Rightarrow> db \<Rightarrow> error + db" where
  "deleteThreads [] d = Inr d"
| "deleteThreads ((t, thread) # rest) d =
     (case deleteAll (map fst (threadMessages d t)) (messages d) of
        Inl e \<Rightarrow> Inl e
      | Inr ms \<Rightarrow>
         (case deleteAll (map fst (threadNotifications d t)) (notifications d) of
            Inl e \<Rightarrow> Inl e
          | Inr ns \<Rightarrow>
             (case tdelete t (threads d) of
                Inl e \<Rightarrow> Inl e
              | Inr ts \<Rightarrow>
                 deleteThreads rest (d\<lparr>messages := ms, notifications := ns, threads := ts\<rparr>))))"

record delete_result =
  dr_success :: bool
  dr_deleted_threads :: nat

definition deleteProjectBody :: "id \<Rightarrow> db \<Rightarrow> error + (db \<times> delete_result)" where
  "deleteProjectBody p d =
     (case deleteThreads (projectThreads d p) d of
        Inl e \<Rightarrow> Inl e
      | Inr d1 \<Rightarrow>
         (case deleteAll (map fst (projectNotifications d1 p)) (notifications d1) of
            Inl e \<Rightarrow> Inl e
          | Inr ns \<Rightarrow>
             (case tdelete p (projects d1) of
                Inl e \<Rightarrow> Inl e
              | Inr ps \<Rightarrow>
                 Inr (d1\<lparr>notifications := ns, projects := ps\<rparr>,
                      \<lparr>dr_success = True,
                       dr_deleted_threads = length (projectThreads d p)\<rparr>))))"

text \<open>The handler wraps its body in a try block and rethrows what it catches.\<close>

definition deleteProject :: "id \<Rightarrow> db \<Rightarrow> error + (db \<times> delete_result)" where
  "deleteProject p d =
     (case deleteProjectBody p d of
        Inl e \<Rightarrow> Inl (DeleteProjectFailed e)
      | Inr r \<Rightarrow> Inr r)"

section \<open>Migration (migrations.ts)\<close>

definition base_message ::
  "id \<Rightarrow> role \<Rightarrow> string \<Rightarrow> string \<Rightarrow> message" where
  "base_message thread_id author content created_at =
     \<lparr>msg_thread_id = thread_id,
      msg_author = author,
      msg_content = content,
      msg_message_type = MText,
      msg_is_private = False,
      msg_is_edited = False,
      msg_created_at = created_at,
      msg_edited_at = None,
      msg_original_content = None,
      msg_original_language = None,
      msg_translated_content = None,
      msg_target_language = None,
      msg_translation_enabled = None,
      msg_file_id = None,
      msg_file_name = None,
      msg_file_type = None,
      msg_file_size = None,
      msg_file_url = None\<rparr>"

record migrate_result =
  mr_success :: bool
  mr_message :: string
  mr_client_id :: id
  mr_main_project_id :: "id option"
  mr_migrated_feedback_count :: "nat option"
  mr_sample_project_ids :: "id list option"
  mr_total_projects :: "nat option"

text \<open>\<open>args.client_name || "Cliente Principal"\<close>\<close>

definition targetName :: "string option \<Rightarrow> string" where
  "targetName client_name =
     (case client_name of None \<Rightarrow> ''Cliente Principal''
      | Some n \<Rightarrow> if n = [] then ''Cliente Principal'' else n)"

definition findClient :: "db \<Rightarrow> string \<Rightarrow> (id \<times> client) option" where
  "findClient d name = find (\<lambda>(i, c). cli_name c = name) (clients d)"

definition migrateOne :: "string \<Rightarrow> id \<Rightarrow> feedback \<Rightarrow> db \<Rightarrow> error + db" where
  "migrateOne now mainProjectId fb d =
     (let (legacyId, d1) = insert_legacy
            \<lparr>lf_category = fb_category fb,
             lf_subject = fb_subject fb,
             lf_description = fb_description fb,
             lf_status = fb_status fb,
             lf_priority = fb_priority fb,
             lf_developer_notes = fb_developer_notes fb,
             lf_client_response = fb_client_response fb,
             lf_migrated_to_thread = None,
             lf_migration_date = Some now,
             lf_created_at = fb_creation_time fb\<rparr> d;
          (threadId, d2) = insert_thread
            \<lparr>thr_project_id = mainProjectId,
             thr_title = fb_subject fb,
             thr_status = (if fb_status fb = FNew then TNew
                           else if fb_status fb = FInProgress then TInProgress
                           else if fb_status fb = FCompleted then TResolved else TClosed),
             thr_priority = (if fb_priority fb = FHigh then Urgent else Normal),
             thr_created_by = Client,
             thr_last_activity = now,
             unread_count_client = 0,
             unread_count_developer = (if fb_status fb = FNew then 1 else 0),
             thr_is_archived = None,
             thr_created_at = fb_creation_time fb\<rparr> d1;
          (m1, d3) = insert_message
            (base_message threadId Client (fb_description fb) (fb_creation_time fb)) d2;
          d4 = (if truthy (fb_developer_notes fb)
                then snd (insert_message
                       (base_message threadId Developer
                          (([CHR 0xF0, CHR 0x9F, CHR 0x93, CHR 0x9D] @ '' **Nota del desarrollador:**'' @ [CHR 0x0A, CHR 0x0A]) @ the (fb_developer_notes fb))
                          (fb_creation_time fb)) d3)
                else d3)
      in case find (\<lambda>(i, l). lf_subject l = fb_subject fb) (legacy_feedbacks d4) of
           None \<Rightarrow> Inr d4
         | Some (lid, l) \<Rightarrow>
            (case tpatch lid (\<lambda>r. r\<lparr>lf_migrated_to_thread := Some threadId\<rparr>)
                    (legacy_feedbacks d4) of
               Inl e \<Rightarrow> Inl e
             | Inr ls \<Rightarrow> Inr (d4\<lparr>legacy_feedbacks := ls\<rparr>)))"

fun migrateLoop :: "string \<Rightarrow> id \<Rightarrow> feedback table \<Rightarrow> db \<times> nat \<Rightarrow> error + (db \<times> nat)" where
  "migrateLoop now mainProjectId [] (d, migratedCount) = Inr (d, migratedCount)"
| "migrateLoop now mainProjectId ((i, fb) # rest) (d, migratedCount) =
     (case migrateOne now mainProjectId fb d of
        Inl e \<Rightarrow> Inl e
      | Inr d1 \<Rightarrow> migrateLoop now mainProjectId rest (d1, migratedCount + 1))"

record sample_project =
  sp_name :: string
  sp_type :: project_type
  sp_icon :: string
  sp_color :: string
  sp_description :: string

definition sampleProjects :: "sample_project list" where
  "sampleProjects =
     [\<lparr>sp_name = ''Tarjetas F'' @ [CHR 0xC3, CHR 0xAD] @ ''sicas - Redise'' @ [CHR 0xC3, CHR 0xB1] @ ''o'',
       sp_type = Cards,
       sp_icon = [CHR 0xF0, CHR 0x9F, CHR 0x83, CHR 0x8F],
       sp_color = ''#10B981'',
       sp_description = ''Redise'' @ [CHR 0xC3, CHR 0xB1] @ ''o de tarjetas de presentaci'' @ [CHR 0xC3, CHR 0xB3] @ ''n y materiales f'' @ [CHR 0xC3, CHR 0xAD] @ ''sicos para el negocio.''\<rparr>,
      \<lparr>sp_name = ''Sistema Generador de Leads'',
       sp_type = LeadGen,
       sp_icon = [CHR 0xF0, CHR 0x9F, CHR 0x8E, CHR 0xAF],
       sp_color = ''#F59E0B'',
       sp_description = ''Implementaci'' @ [CHR 0xC3, CHR 0xB3] @ ''n de sistema automatizado para captura y gesti'' @ [CHR 0xC3, CHR 0xB3] @ ''n de prospectos.''\<rparr>]"

fun createSamples :: "string \<Rightarrow> id \<Rightarrow> sample_project list \<Rightarrow> db \<times> id list \<Rightarrow> db \<times> id list" where
  "createSamples now clientId [] (d, sampleProjectIds) = (d, sampleProjectIds)"
| "createSamples now clientId (sp # rest) (d, sampleProjectIds) =
     (let (projectId, d1) = insert_project
            \<lparr>prj_client_id = clientId,
             prj_name = sp_name sp,
             prj_type = sp_type sp,
             prj_status = NotStarted,
             prj_priority = Medium,
             prj_icon = sp_icon sp,
             prj_color = sp_color sp,
             prj_description = Some (sp_description sp),
             prj_deadline = None,
             prj_is_archived = None,
             prj_created_at = now,
             prj_updated_at = now\<rparr> d
      in createSamples now clientId rest (d1, sampleProjectIds @ [projectId]))"

text \<open>The client row and the main project row that the migration inserts.\<close>

definition mainClient :: "string \<Rightarrow> string \<Rightarrow> client" where
  "mainClient now name =
     \<lparr>cli_name = name,
      cli_email = Some ''cliente@agualimpia.com'',
      cli_language = ES,
      cli_tech_level = Some 3,
      cli_timezone = Some ''America/Mexico_City'',
      cli_created_at = now,
      cli_last_active = Some now\<rparr>"

definition mainProject :: "string \<Rightarrow> id \<Rightarrow> project" where
  "mainProject now clientId =
     \<lparr>prj_client_id = clientId,
      prj_name = ''Agua Limpia - Presentaci'' @ [CHR 0xC3, CHR 0xB3] @ ''n'',
      prj_type = Presentation,
      prj_status = InProgress,
      prj_priority = High,
      prj_icon = [CHR 0xF0, CHR 0x9F, CHR 0x92, CHR 0xA7],
      prj_color = ''#0EA5E9'',
      prj_description = Some (''Presentaci'' @ [CHR 0xC3, CHR 0xB3] @ ''n profesional para sistema de tratamiento de agua con PWA offline y funcionalidad completa.''),
      prj_deadline = None,
      prj_is_archived = None,
      prj_created_at = now,
      prj_updated_at = now\<rparr>"

definition migrateFeedbackData ::
  "string \<Rightarrow> string option \<Rightarrow> db \<Rightarrow> error + (db \<times> migrate_result)" where
  "migrateFeedbackData now client_name d =
     (case findClient d (targetName client_name) of
        Some (existingId, existingClient) \<Rightarrow>
          Inr (d, \<lparr>mr_success = False,
                   mr_message = ''Migration already completed'',
                   mr_client_id = existingId,
                   mr_main_project_id = None,
                   mr_migrated_feedback_count = None,
                   mr_sample_project_ids = None,
                   mr_total_projects = None\<rparr>)
      | None \<Rightarrow>
         (let (clientId, d1) = insert_client (mainClient now (targetName client_name)) d;
              (mainProjectId, d2) = insert_project (mainProject now clientId) d1
          in case migrateLoop now mainProjectId (feedbacks d2) (d2, 0) of
               Inl e \<Rightarrow> Inl e
             | Inr (d3, migratedCount) \<Rightarrow>
                (let (d4, sampleProjectIds) = createSamples now clientId sampleProjects (d3, [])
                 in Inr (d4, \<lparr>mr_success = True,
                              mr_message = ''Migration completed successfully'',
                              mr_client_id = clientId,
                              mr_main_project_id = Some mainProjectId,
                              mr_migrated_feedback_count = Some migratedCount,
                              mr_sample_project_ids = Some sampleProjectIds,
                              mr_total_projects = Some (length sampleProjects + 1)\<rparr>))))"

section \<open>Translation (translation.ts)\<close>

text \<open>
  The source language is \<open>'en'\<close>, \<open>'es'\<close> or the default \<open>'auto'\<close>. The two remote
  calls are outside the program: each either fails (a thrown fetch, a timeout, a non-OK
  status, an unreadable body, all caught by the call's own try block) or yields the fields
  the code reads from the response.
\<close>

datatype source_lang = Auto | Src lang

datatype mymemory = MyMemoryFailed | MyMemoryOk string

datatype libretranslate = LibreFailed | LibreOk "string option" "string option"

definition lang_code :: "lang \<Rightarrow> string" where
  "lang_code l = (case l of EN \<Rightarrow> ''en'' | ES \<Rightarrow> ''es'')"

definition source_code :: "source_lang \<Rightarrow> string" where
  "source_code s = (case s of Auto \<Rightarrow> ''auto'' | Src l \<Rightarrow> lang_code l)"

record translation_result =
  originalText :: string
  translatedText :: string
  sourceLanguage :: string
  targetLanguage :: lang
  success :: bool
  error_text :: "string option"

definition cleanMessage :: "string \<Rightarrow> string" where
  "cleanMessage text = [CHR 0xF0, CHR 0x9F, CHR 0x92, CHR 0xAC] @ '' '' @ [CHR 0x22] @ text @ [CHR 0x22]"

definition tryRealTranslation ::
  "string \<Rightarrow> lang \<Rightarrow> source_lang \<Rightarrow> mymemory \<Rightarrow> libretranslate \<Rightarrow> translation_result" where
  "tryRealTranslation text targetLang sourceLang mm lt =
     (case mm of
        MyMemoryOk translated \<Rightarrow>
          \<lparr>originalText = text, translatedText = translated,
           sourceLanguage = source_code sourceLang, targetLanguage = targetLang,
           success = True, error_text = None\<rparr>
      | MyMemoryFailed \<Rightarrow>
         (case lt of
            LibreOk translated detected \<Rightarrow>
              \<lparr>originalText = text,
               translatedText = (if truthy translated then the translated else text),
               sourceLanguage = (if truthy detected then the detected
                                 else source_code sourceLang),
               targetLanguage = targetLang,
               success = True, error_text = None\<rparr>
          | LibreFailed \<Rightarrow>
              \<lparr>originalText = text, translatedText = cleanMessage text,
               sourceLanguage = source_code sourceLang, targetLanguage = targetLang,
               success = True, error_text = None\<rparr>))"

definition translateText ::
  "string \<Rightarrow> lang \<Rightarrow> source_lang \<Rightarrow> mymemory \<Rightarrow> libretranslate \<Rightarrow> translation_result" where
  "translateText text targetLang sourceLang mm lt =
     (if sourceLang = Src targetLang
      then \<lparr>originalText = text, translatedText = text,
            sourceLanguage = source_code sourceLang, targetLanguage = targetLang,
            success = True, error_text = None\<rparr>
      else tryRealTranslation text targetLang sourceLang mm lt)"

text \<open>
  The bundled phrase tables, and the two ends of \<open>fallbackPhraseTranslate\<close> that need no
  regular expression: the lookup of the whole (lower-cased, trimmed) text and the
  language-tagged note for a text with no phrase in it. Nothing in the module calls
  \<open>fallbackPhraseTranslate\<close>. The tables are the object literals in source order; the
  one key written twice (\<open>is working\<close>) has the same value both times.
\<close>

definition en_to_es :: "(string \<times> string) list" where
  "en_to_es =
     [(''hello'', ''hola''),
      (''hi'', ''hola''),
      (''good morning'', ''buenos d'' @ [CHR 0xC3, CHR 0xAD] @ ''as''),
      (''good afternoon'', ''buenas tardes''),
      (''good evening'', ''buenas noches''),
      (''goodbye'', ''adi'' @ [CHR 0xC3, CHR 0xB3] @ ''s''),
      (''see you later'', ''hasta luego''),
      (''thank you'', ''gracias''),
      (''thanks'', ''gracias''),
      (''please'', ''por favor''),
      (''you'' @ [CHR 0x27] @ ''re welcome'', ''de nada''),
      (''excuse me'', ''disculpe''),
      (''sorry'', ''lo siento''),
      (''yes'', ''s'' @ [CHR 0xC3, CHR 0xAD]),
      (''no'', ''no''),
      (''maybe'', ''tal vez''),
      (''how are you'', ''c'' @ [CHR 0xC3, CHR 0xB3] @ ''mo est'' @ [CHR 0xC3, CHR 0xA1] @ ''s''),
      (''i am fine'', ''estoy bien''),
      (''what do you think'', ''qu'' @ [CHR 0xC3, CHR 0xA9] @ '' piensas''),
      (''let me know'', ''hazme saber''),
      (''no problem'', ''no hay problema''),
      (''of course'', ''por supuesto''),
      (''i understand'', ''entiendo''),
      (''i don'' @ [CHR 0x27] @ ''t understand'', ''no entiendo''),
      (''can you help me'', ''puedes ayudarme''),
      (''this works'', ''esto funciona''),
      (''it works'', ''funciona''),
      (''it doesn'' @ [CHR 0x27] @ ''t work'', ''no funciona''),
      (''is working'', ''est'' @ [CHR 0xC3, CHR 0xA1] @ '' funcionando''),
      (''the function'', ''la funci'' @ [CHR 0xC3, CHR 0xB3] @ ''n''),
      (''is working'', ''est'' @ [CHR 0xC3, CHR 0xA1] @ '' funcionando''),
      (''testing'', ''probando''),
      (''test'', ''prueba''),
      (''bug'', ''error''),
      (''problem'', ''problema''),
      (''issue'', ''problema''),
      (''feature'', ''caracter'' @ [CHR 0xC3, CHR 0xAD] @ ''stica''),
      (''update'', ''actualizaci'' @ [CHR 0xC3, CHR 0xB3] @ ''n''),
      (''new'', ''nuevo''),
      (''old'', ''viejo''),
      (''done'', ''hecho''),
      (''finished'', ''terminado''),
      (''working'', ''trabajando''),
      (''complete'', ''completo''),
      (''ready'', ''listo'')]"

definition es_to_en :: "(string \<times> string) list" where
  "es_to_en =
     [(''hola'', ''hello''),
      (''buenos d'' @ [CHR 0xC3, CHR 0xAD] @ ''as'', ''good morning''),
      (''buenas tardes'', ''good afternoon''),
      (''buenas noches'', ''good evening''),
      (''adi'' @ [CHR 0xC3, CHR 0xB3] @ ''s'', ''goodbye''),
      (''hasta luego'', ''see you later''),
      (''gracias'', ''thank you''),
      (''por favor'', ''please''),
      (''de nada'', ''you'' @ [CHR 0x27] @ ''re welcome''),
      (''disculpe'', ''excuse me''),
      (''lo siento'', ''sorry''),
      (''s'' @ [CHR 0xC3, CHR 0xAD], ''yes''),
      (''no'', ''no''),
      (''tal vez'', ''maybe''),
      (''c'' @ [CHR 0xC3, CHR 0xB3] @ ''mo est'' @ [CHR 0xC3, CHR 0xA1] @ ''s'', ''how are you''),
      (''estoy bien'', ''i am fine''),
      (''qu'' @ [CHR 0xC3, CHR 0xA9] @ '' piensas'', ''what do you think''),
      (''hazme saber'', ''let me know''),
      (''no hay problema'', ''no problem''),
      (''por supuesto'', ''of course''),
      (''entiendo'', ''i understand''),
      (''no entiendo'', ''i don'' @ [CHR 0x27] @ ''t understand''),
      (''puedes ayudarme'', ''can you help me''),
      (''esto funciona'', ''this works''),
      (''funciona'', ''it works''),
      (''no funciona'', ''it doesn'' @ [CHR 0x27] @ ''t work''),
      (''est'' @ [CHR 0xC3, CHR 0xA1] @ '' funcionando'', ''is working''),
      (''la funci'' @ [CHR 0xC3, CHR 0xB3] @ ''n'', ''the function''),
      (''probando'', ''testing''),
      (''prueba'', ''test''),
      (''error'', ''bug''),
      (''problema'', ''problem''),
      (''caracter'' @ [CHR 0xC3, CHR 0xAD] @ ''stica'', ''feature''),
      (''actualizaci'' @ [CHR 0xC3, CHR 0xB3] @ ''n'', ''update''),
      (''nuevo'', ''new''),
      (''viejo'', ''old''),
      (''hecho'', ''done''),
      (''terminado'', ''finished''),
      (''trabajando'', ''working''),
      (''completo'', ''complete''),
      (''listo'', ''ready'')]"

definition phraseTranslations :: "lang \<Rightarrow> lang \<Rightarrow> (string \<times> string) list" where
  "phraseTranslations finalSourceLang targetLang =
     (if finalSourceLang = EN \<and> targetLang = ES then en_to_es
      else if finalSourceLang = ES \<and> targetLang = EN then es_to_en
      else [])"

text \<open>
  \<open>phrases[key]\<close> on an object literal finds the literal's own entries and, failing
  that, what every object inherits; the inherited values are functions or objects, all
  truthy and none a string.
\<close>

definition inherited_keys :: "string list" where
  "inherited_keys =
     [''constructor'', ''hasOwnProperty'', ''isPrototypeOf'', ''propertyIsEnumerable'',
      ''toLocaleString'', ''toString'', ''valueOf'', ''__proto__'', ''__defineGetter__'',
      ''__defineSetter__'', ''__lookupGetter__'', ''__lookupSetter__'']"

datatype phrase_hit = OwnPhrase string | InheritedValue | NoPhrase

definition wholePhrase :: "lang \<Rightarrow> lang \<Rightarrow> string \<Rightarrow> phrase_hit" where
  "wholePhrase finalSourceLang targetLang translatedText0 =
     (case map_of (phraseTranslations finalSourceLang targetLang) translatedText0 of
        Some t \<Rightarrow> if t = [] then NoPhrase else OwnPhrase t
      | None \<Rightarrow> if translatedText0 \<in> set inherited_keys then InheritedValue else NoPhrase)"

definition helpMessage :: "lang \<Rightarrow> string \<Rightarrow> string" where
  "helpMessage targetLang text =
     (if targetLang = ES then ''[Mensaje en ingl'' @ [CHR 0xC3, CHR 0xA9] @ ''s: '' @ [CHR 0x22] @ text @ [CHR 0x22] @ '']''
      else ''[Message in Spanish: '' @ [CHR 0x22] @ text @ [CHR 0x22] @ '']'')"

section \<open>Example stores\<close>

definition example_env :: tg_env where
  "example_env =
     \<lparr>tg_chat_id = Some ''42'',
      tg_render = (\<lambda>client_name project_name title truncated thread_id. truncated),
      tg_outcome = TgOk, tg_created_at = ''t1'', tg_done_at = ''t2''\<rparr>"

definition example_project :: project where
  "example_project =
     \<lparr>prj_client_id = 0, prj_name = ''P'', prj_type = Website,
      prj_status = InProgress, prj_priority = Medium, prj_icon = ''i'', prj_color = ''c'',
      prj_description = None, prj_deadline = None, prj_is_archived = None,
      prj_created_at = ''t0'', prj_updated_at = ''t0''\<rparr>"

definition example_thread :: thread where
  "example_thread =
     \<lparr>thr_project_id = 1, thr_title = ''T'', thr_status = TNew,
      thr_priority = Normal, thr_created_by = Client, thr_last_activity = ''t0'',
      unread_count_client = 2, unread_count_developer = 3, thr_is_archived = None,
      thr_created_at = ''t0''\<rparr>"

definition empty_db :: db where
  "empty_db =
     \<lparr>clients = [], projects = [], threads = [], messages = [],
      project_folders = [], project_files = [], feedbacks = [], legacy_feedbacks = [],
      notifications = [], next_id = 0\<rparr>"

text \<open>One project, and one thread in it with two and three unread messages.\<close>

definition example_db :: db where
  "example_db =
     empty_db\<lparr>projects := [(1, example_project)], threads := [(2, example_thread)],
              next_id := 3\<rparr>"

text \<open>One project and no thread.\<close>

definition project_db :: db where
  "project_db = empty_db\<lparr>projects := [(1, example_project)], next_id := 2\<rparr>"

definition private_note :: "role \<Rightarrow> send_args" where
  "private_note r =
     \<lparr>sa_thread_id = 2, sa_content = ''note'', sa_author = r,
      sa_message_type = None, sa_is_private = Some True, sa_original_content = None,
      sa_original_language = None, sa_translated_content = None, sa_target_language = None,
      sa_translation_enabled = None\<rparr>"

definition new_thread_args :: "role option \<Rightarrow> string option \<Rightarrow> create_args" where
  "new_thread_args r msg =
     \<lparr>ca_project_id = 1, ca_title = ''Q'', ca_priority = None,
      ca_initial_message = msg, ca_created_by = r, ca_original_content = None,
      ca_original_language = None, ca_translated_content = None, ca_target_language = None,
      ca_translation_enabled = None\<rparr>"

text \<open>The two unread counters of every thread of a store, by thread id.\<close>

definition counters :: "db \<Rightarrow> (id \<times> nat \<times> nat) list" where
  "counters d =
     map (\<lambda>(i, t). (i, unread_count_client t, unread_count_developer t)) (threads d)"

definition archive_flags :: "db \<Rightarrow> bool option list" where
  "archive_flags d = map (\<lambda>(i, t). thr_is_archived t) (threads d)"

text \<open>The example store with one message of the developer in its thread.\<close>

definition example_message :: message where
  "example_message = base_message 2 Developer ''hi'' ''t0''"

definition message_db :: db where
  "message_db = example_db\<lparr>messages := [(3, example_message)], next_id := 4\<rparr>"

text \<open>Calling \<open>setupDefaultFolders\<close> once per clock reading; the reported counts.\<close>

fun setupRepeatedly :: "string list \<Rightarrow> id \<Rightarrow> role \<Rightarrow> db \<Rightarrow> db \<times> nat list" where
  "setupRepeatedly [] p created_by d = (d, [])"
| "setupRepeatedly (now # nows) p created_by d =
     (let (d1, res) = setupDefaultFolders now p created_by d;
          (d2, counts) = setupRepeatedly nows p created_by d1
      in (d2, sr_foldersCreated res # counts))"

text \<open>The project, the name and the id of every folder of a list of rows.\<close>

definition folder_names :: "project_folder table \<Rightarrow> (id \<times> id \<times> string) list" where
  "folder_names t = map (\<lambda>(i, f). (i, fld_project_id f, fld_name f)) t"

text \<open>
  A row of the file table before and after a run of \<open>autoOrganizeFiles\<close> on project
  \<open>p\<close>: the same id; a file of \<open>p\<close> without a folder has received one and the time of
  the move, and is otherwise as before; any other row is as before.
\<close>

definition organizedRow ::
  "string \<Rightarrow> id \<Rightarrow> id \<times> project_file \<Rightarrow> id \<times> project_file \<Rightarrow> bool" where
  "organizedRow now p x y =
     (fst y = fst x \<and>
      (if pf_project_id (snd x) = p \<and> pf_folder_id (snd x) = None
       then pf_folder_id (snd y) \<noteq> None \<and>
            snd y = (snd x)\<lparr>pf_folder_id := pf_folder_id (snd y), pf_moved_at := Some now\<rparr>
       else snd y = snd x))"

definition example_file :: "string \<Rightarrow> id option \<Rightarrow> project_file" where
  "example_file file_type folder =
     \<lparr>pf_project_id = 1, pf_folder_id = folder, pf_file_id = 0, pf_message_id = None,
      pf_file_name = ''f'', pf_file_type = file_type, pf_file_size = 1, pf_file_url = None,
      pf_tags = [], pf_uploaded_by = Client, pf_uploaded_at = ''t0'', pf_moved_at = None\<rparr>"

text \<open>One project with two files outside any folder, and no folder yet.\<close>

definition files_db :: db where
  "files_db =
     project_db\<lparr>project_files := [(2, example_file ''image/png'' None),
                                  (3, example_file ''application/pdf'' None)],
                next_id := 4\<rparr>"

text \<open>
  The same relation during the loop, for the rows whose ids are in \<open>S\<close>.
\<close>

definition patchedRow ::
  "string \<Rightarrow> id set \<Rightarrow> id \<times> project_file \<Rightarrow> id \<times> project_file \<Rightarrow> bool" where
  "patchedRow now S x y =
     (fst y = fst x \<and>
      (if fst x \<in> S
       then pf_folder_id (snd y) \<noteq> None \<and>
            snd y = (snd x)\<lparr>pf_folder_id := pf_folder_id (snd y), pf_moved_at := Some now\<rparr>
       else snd y = snd x))"

text \<open>
  The example store with a message in its thread, a notification about the thread and one
  about the project.
\<close>

definition example_notification :: "id option \<Rightarrow> id option \<Rightarrow> notification" where
  "example_notification t p =
     \<lparr>ntf_type = Telegram, ntf_recipient = ''42'', ntf_message = ''n'',
      ntf_thread_id = t, ntf_project_id = p, ntf_sent_at = None,
      ntf_status = Pending, ntf_created_at = ''t0''\<rparr>"

definition notified_db :: db where
  "notified_db =
     message_db\<lparr>notifications := [(4, example_notification (Some 2) None),
                                   (5, example_notification None (Some 1))],
                next_id := 6\<rparr>"

text \<open>A store with two legacy feedback records and no client.\<close>

definition example_feedback :: "string \<Rightarrow> feedback_status \<Rightarrow> string option \<Rightarrow> feedback" where
  "example_feedback subject status notes =
     \<lparr>fb_category = Bug, fb_subject = subject, fb_description = ''d'',
      fb_status = status, fb_priority = FHigh, fb_developer_notes = notes,
      fb_client_response = None, fb_creation_time = ''1700000000000''\<rparr>"

definition feedback_db :: db where
  "feedback_db =
     empty_db\<lparr>feedbacks := [(0, example_feedback ''a'' FNew None),
                             (1, example_feedback ''b'' FCompleted (Some ''fixed''))],
              next_id := 2\<rparr>"

text \<open>The number of feedback records that carry developer notes.\<close>

definition notesCount :: "feedback table \<Rightarrow> nat" where
  "notesCount t = length (filter (\<lambda>(i, fb). truthy (fb_developer_notes fb)) t)"

text \<open>What \<open>migrateFeedbackData\<close> returns when the client is already there.\<close>

definition already_migrated :: "id \<Rightarrow> migrate_result" where
  "already_migrated i =
     \<lparr>mr_success = False, mr_message = ''Migration already completed'', mr_client_id = i,
      mr_main_project_id = None, mr_migrated_feedback_count = None,
      mr_sample_project_ids = None, mr_total_projects = None\<rparr>"

text \<open>A store whose only row is the migration's client.\<close>

definition client_db :: db where
  "client_db = empty_db\<lparr>clients := [(0, mainClient ''t0'' ''Cliente Principal'')], next_id := 1\<rparr>"





section \<open>Properties of the store operations\<close>

lemmas example_defs =
  example_env_def example_project_def example_thread_def empty_db_def example_db_def
  project_db_def private_note_def new_thread_args_def counters_def archive_flags_def

lemmas run_defs =
  sendMessage_def insert_message_def insert_thread_def insert_notification_def tget_def
  tpatch_def thas_def newUnreadClient_def newUnreadDeveloper_def not_private_def
  createThread_def truthy_def sendTelegramAlert_def getTotalUnreadCount_def unreadCount_def

section \<open>Unread bookkeeping\<close>

text \<open>
  C1. \<open>sendMessage\<close> is claimed to leave both unread counters untouched when the message
  is private, whoever the author is. On a thread with two unread messages for the client
  and three for the developer, a private message sent by the developer resets the
  developer's counter to 0, and a private message sent by the client resets the client's
  counter to 0 and raises the developer's to 4: only the client's counter is guarded by
  the privacy flag.
\<close>

theorem sendMessage_private_changes_counters:
  "counters example_db = [(2, 2, 3)] \<and>
   map_sum id (counters \<circ> fst)
     (sendMessage ''now'' example_env (private_note Developer) example_db) = Inr [(2, 2, 0)] \<and>
   map_sum id (counters \<circ> fst)
     (sendMessage ''now'' example_env (private_note Client) example_db) = Inr [(2, 0, 4)]"
  by (simp add: example_defs run_defs)

text \<open>
  C2. \<open>getTotalUnreadCount\<close> is claimed to count every thread that is not archived,
  a freshly created thread included. A thread created by the client in a store with one
  project has one unread message for the developer and no archive flag, yet the
  developer's total is 0: the query keeps only the rows whose flag is present and false.
\<close>

theorem getTotalUnreadCount_skips_new_thread:
  "map_sum id (\<lambda>(d, i). (counters d, archive_flags d, getTotalUnreadCount Developer d))
     (createThread ''now'' ''now2'' example_env (new_thread_args (Some Client) None) project_db)
   = Inr ([(2, 0, 1)], [None], 0)"
  by (simp add: example_defs run_defs)

text \<open>
  C3. After \<open>createThread\<close> the other role's counter is claimed to be 1 with an initial
  message and 0 without. With the creator given as the client, the thread is inserted
  with the developer's counter at 1 and \<open>sendMessage\<close> then adds one for the initial
  message, which leaves 2; without an initial message the counter stays at 1. The same
  holds with the roles exchanged.
\<close>

theorem createThread_counts_initial_message_twice:
  "map_sum id (counters \<circ> fst)
     (createThread ''now'' ''now2'' example_env
        (new_thread_args (Some Client) (Some ''hola'')) project_db) = Inr [(2, 0, 2)] \<and>
   map_sum id (counters \<circ> fst)
     (createThread ''now'' ''now2'' example_env
        (new_thread_args (Some Client) None) project_db) = Inr [(2, 0, 1)] \<and>
   map_sum id (counters \<circ> fst)
     (createThread ''now'' ''now2'' example_env
        (new_thread_args (Some Developer) (Some ''hola'')) project_db) = Inr [(2, 2, 0)] \<and>
   map_sum id (counters \<circ> fst)
     (createThread ''now'' ''now2'' example_env
        (new_thread_args (Some Developer) None) project_db) = Inr [(2, 1, 0)]"
  by (simp add: example_defs run_defs)

subsection \<open>Tables\<close>

lemma tget_thas: "tget t i = Some r \<Longrightarrow> thas t i"
  by (auto simp: tget_def thas_def dest: map_of_SomeD intro: rev_image_eqI)

lemma thas_tget: "thas t i \<Longrightarrow> \<exists>r. tget t i = Some r"
  unfolding thas_def tget_def by (metis domIff dom_map_of_conv_image_fst option.exhaust)

lemma map_of_patch:
  "map_of (map (\<lambda>(j, r). if j = i then (j, f r) else (j, r)) t) k =
     (if k = i then map_option f (map_of t k) else map_of t k)"
  by (induction t) auto

lemma tget_tpatch:
  "tpatch i f t = Inr t' \<Longrightarrow> tget t' k = (if k = i then map_option f (tget t k) else tget t k)"
  by (auto simp: tpatch_def tget_def map_of_patch split: if_splits)

lemma tpatch_ids: "tpatch i f t = Inr t' \<Longrightarrow> map fst t' = map fst t"
  by (auto simp: tpatch_def split: if_splits)

lemma tpatch_thas: "thas t i \<Longrightarrow> tpatch i f t = Inr (map (\<lambda>(j, r). if j = i then (j, f r) else (j, r)) t)"
  by (simp add: tpatch_def)

section \<open>Deleting a message\<close>

text \<open>
  C10, as stated. A deletion is claimed to rewrite the content and set \<open>is_edited\<close>
  and to leave every other field as it was. On a message that was never edited, the row
  the code leaves is not that one: \<open>edited_at\<close> is set as well.
\<close>

theorem deleteMessage_sets_edited_at:
  "deleteMessage ''now'' 3 Developer message_db \<noteq>
     Inr (message_db\<lparr>messages :=
            [(3, example_message\<lparr>msg_content := deleted_marker, msg_is_edited := True\<rparr>)]\<rparr>, Some 3) \<and>
   deleteMessage ''now'' 3 Developer message_db =
     Inr (message_db\<lparr>messages :=
            [(3, example_message\<lparr>msg_content := deleted_marker, msg_is_edited := True,
                 msg_edited_at := Some ''now''\<rparr>)]\<rparr>, Some 3) \<and>
   msg_edited_at example_message = None"
  by (simp add: deleteMessage_def message_db_def example_message_def base_message_def tget_def tpatch_def thas_def example_db_def empty_db_def)

text \<open>
  C10, amended. For a message \<open>m\<close> that exists and a caller role \<open>r\<close>, \<open>deleteMessage\<close>
  throws exactly when \<open>r\<close> is not the author of \<open>m\<close> and \<open>r\<close> is not the developer,
  and what it throws is the validation error \<open>No puedes eliminar mensajes de otros
  usuarios\<close>. Otherwise it returns the message id, the row stays in the table with its
  content replaced by the marker, \<open>is_edited\<close> set and \<open>edited_at\<close> set to the current
  time, every other field of the row as before; the other rows and the other tables do
  not change.
\<close>

theorem deleteMessage_authorization:
  assumes "tget (messages d) i = Some m"
  shows "((\<exists>e. deleteMessage now i r d = Inl e) \<longleftrightarrow> (msg_author m \<noteq> r \<and> r \<noteq> Developer)) \<and>
    (msg_author m \<noteq> r \<and> r \<noteq> Developer \<longrightarrow>
       deleteMessage now i r d =
         Inl (ValidationError ''No puedes eliminar mensajes de otros usuarios'')) \<and>
    (\<not> (msg_author m \<noteq> r \<and> r \<noteq> Developer) \<longrightarrow>
       (\<exists>d'. deleteMessage now i r d = Inr (d', Some i) \<and>
          messages d' =
            map (\<lambda>(j, x). if j = i
                   then (j, x\<lparr>msg_content := deleted_marker, msg_is_edited := True,
                              msg_edited_at := Some now\<rparr>)
                   else (j, x)) (messages d) \<and>
          tget (messages d') i =
            Some (m\<lparr>msg_content := deleted_marker, msg_is_edited := True,
                    msg_edited_at := Some now\<rparr>) \<and>
          map fst (messages d') = map fst (messages d) \<and>
          (\<forall>j. j \<noteq> i \<longrightarrow> tget (messages d') j = tget (messages d) j) \<and>
          d'\<lparr>messages := messages d\<rparr> = d))"
proof -
  let ?f = "\<lambda>r. r\<lparr>msg_content := deleted_marker, msg_is_edited := True, msg_edited_at := Some now\<rparr>"
  let ?t = "map (\<lambda>(j, r). if j = i then (j, ?f r) else (j, r)) (messages d)"
  have p: "tpatch i ?f (messages d) = Inr ?t"
    using assms by (simp add: tpatch_thas tget_thas)
  have ok: "\<not> (msg_author m \<noteq> r \<and> r \<noteq> Developer) \<Longrightarrow>
     deleteMessage now i r d = Inr (d\<lparr>messages := ?t\<rparr>, Some i)"
    using assms p by (simp add: deleteMessage_def)
  have bad: "msg_author m \<noteq> r \<and> r \<noteq> Developer \<Longrightarrow>
     deleteMessage now i r d =
       Inl (ValidationError ''No puedes eliminar mensajes de otros usuarios'')"
    using assms by (simp add: deleteMessage_def)
  have g: "tget ?t k = (if k = i then map_option ?f (tget (messages d) k) else tget (messages d) k)" for k
    using tget_tpatch [OF p] .
  show ?thesis
  proof (cases "msg_author m \<noteq> r \<and> r \<noteq> Developer")
    case True
    then show ?thesis using bad by simp
  next
    case False
    have "deleteMessage now i r d = Inr (d\<lparr>messages := ?t\<rparr>, Some i)" using ok False by blast
    moreover have "tget ?t i = Some (?f m)" using g [of i] assms by simp
    moreover have "map fst ?t = map fst (messages d)" using tpatch_ids [OF p] .
    moreover have "\<forall>j. j \<noteq> i \<longrightarrow> tget ?t j = tget (messages d) j" using g by simp
    ultimately show ?thesis using False by auto
  qed
qed

theorem deleteMessage_authorization_witness:
  "tget (messages message_db) 3 = Some example_message \<and>
   deleteMessage ''now'' 3 Client message_db =
     Inl (ValidationError ''No puedes eliminar mensajes de otros usuarios'') \<and>
   (\<exists>d'. deleteMessage ''now'' 3 Developer message_db = Inr (d', Some 3) \<and>
      messages d' = [(3, example_message\<lparr>msg_content := deleted_marker, msg_is_edited := True,
                    msg_edited_at := Some ''now''\<rparr>)] \<and>
      tget (messages d') 3 = Some (example_message\<lparr>msg_content := deleted_marker, msg_is_edited := True,
                    msg_edited_at := Some ''now''\<rparr>))"
proof -
  have h: "tget (messages message_db) 3 = Some example_message"
    by (simp add: message_db_def tget_def)
  have a: "msg_author example_message = Developer"
    by (simp add: example_message_def base_message_def)
  have ms: "messages message_db = [(3, example_message)]"
    by (simp add: message_db_def)
  show ?thesis
    using h deleteMessage_authorization [OF h, of "''now''" Client]
      deleteMessage_authorization [OF h, of "''now''" Developer] a
    by (auto simp: ms)
qed

section \<open>File classification\<close>

lemma str_includes_sublist: "str_includes s sub \<longleftrightarrow> sublist sub s"
  by (induction s) (auto simp: sublist_Cons_right)

lemma isDocumentType_sublist:
  "isDocumentType t \<longleftrightarrow>
     sublist ''document'' t \<or> sublist ''text'' t \<or> sublist ''word'' t \<or>
     sublist ''excel'' t \<or> sublist ''powerpoint'' t"
  by (simp add: isDocumentType_def str_includes_sublist)

lemma pdf_not_image: "\<not> startsWith ''application/pdf'' ''image/''"
  by (simp add: startsWith_def)

lemma pdf_not_document: "\<not> isDocumentType ''application/pdf''"
  by (simp add: isDocumentType_def)

lemma orElse_idem: "orElse a (orElse a b) = orElse a b"
  by (cases a) (simp_all add: orElse_def)

text \<open>
  C4. The classification used for auto-organization is a total, deterministic function
  of the MIME-type string: the chain of tests has a final else, so every string gets
  exactly one bucket, and the bucket depends on the string alone. The tests are taken in
  order: Images when the type starts with \<open>image/\<close>; else PDFs when it equals
  \<open>application/pdf\<close>; else Documents when it contains \<open>document\<close>, \<open>text\<close>, \<open>word\<close>,
  \<open>excel\<close> or \<open>powerpoint\<close>; else Other. Both organizers look the folder up from this
  bucket: \<open>getAutoFolderId\<close> falls back to the Other folder and then to the first folder
  of the project, \<open>autoOrganizeProjectFiles\<close> to the Other folder.
\<close>

theorem classifyFile_total:
  "(classifyFile t = Images \<longleftrightarrow> prefix ''image/'' t) \<and>
   (classifyFile t = PDFs \<longleftrightarrow> t = ''application/pdf'') \<and>
   (classifyFile t = Documents \<longleftrightarrow>
      \<not> prefix ''image/'' t \<and>
      (sublist ''document'' t \<or> sublist ''text'' t \<or> sublist ''word'' t \<or>
       sublist ''excel'' t \<or> sublist ''powerpoint'' t)) \<and>
   (classifyFile t = Other \<longleftrightarrow>
      \<not> prefix ''image/'' t \<and> t \<noteq> ''application/pdf'' \<and>
      \<not> sublist ''document'' t \<and> \<not> sublist ''text'' t \<and> \<not> sublist ''word'' t \<and>
      \<not> sublist ''excel'' t \<and> \<not> sublist ''powerpoint'' t) \<and>
   snd (getAutoFolderId now p t d) =
     orElse (bucketFolder (folderMapOf (projectFolders (fst (getAutoFolderId now p t d)) p))
               (classifyFile t))
       (orElse (fm_other (folderMapOf (projectFolders (fst (getAutoFolderId now p t d)) p)))
          (firstFolderId (projectFolders (fst (getAutoFolderId now p t d)) p))) \<and>
   setupTarget fm t = orElse (bucketFolder fm (classifyFile t)) (fm_other fm)"
proof -
  have 1: "classifyFile t = Images \<longleftrightarrow> prefix ''image/'' t"
    by (simp add: classifyFile_def startsWith_def)
  have 2: "classifyFile t = PDFs \<longleftrightarrow> t = ''application/pdf''"
    using pdf_not_image by (auto simp: classifyFile_def)
  have 3: "classifyFile t = Documents \<longleftrightarrow>
      \<not> prefix ''image/'' t \<and>
      (sublist ''document'' t \<or> sublist ''text'' t \<or> sublist ''word'' t \<or>
       sublist ''excel'' t \<or> sublist ''powerpoint'' t)"
    using pdf_not_document isDocumentType_sublist [of t]
    by (auto simp: classifyFile_def startsWith_def)
  have 4: "classifyFile t = Other \<longleftrightarrow>
      \<not> prefix ''image/'' t \<and> t \<noteq> ''application/pdf'' \<and>
      \<not> sublist ''document'' t \<and> \<not> sublist ''text'' t \<and> \<not> sublist ''word'' t \<and>
      \<not> sublist ''excel'' t \<and> \<not> sublist ''powerpoint'' t"
    using isDocumentType_sublist [of t]
    by (auto simp: classifyFile_def startsWith_def)
  have 5: "snd (getAutoFolderId now p t d) =
     orElse (bucketFolder (folderMapOf (projectFolders (fst (getAutoFolderId now p t d)) p))
               (classifyFile t))
       (orElse (fm_other (folderMapOf (projectFolders (fst (getAutoFolderId now p t d)) p)))
          (firstFolderId (projectFolders (fst (getAutoFolderId now p t d)) p)))"
    by (simp add: getAutoFolderId_def Let_def classifyFile_def bucketFolder_def orElse_idem
        split: prod.splits)
  have 6: "setupTarget fm t = orElse (bucketFolder fm (classifyFile t)) (fm_other fm)"
    by (cases "fm_other fm") (simp_all add: setupTarget_def classifyFile_def bucketFolder_def orElse_def)
  show ?thesis using 1 2 3 4 5 6 by blast
qed

theorem classifyFile_total_witness:
  "classifyFile ''image/png'' = Images \<and> classifyFile ''application/pdf'' = PDFs \<and>
   classifyFile ''application/msword'' = Documents \<and> classifyFile ''image/text'' = Images \<and>
   classifyFile ''application/zip'' = Other \<and> classifyFile '''' = Other"
  using classifyFile_total [of "''image/png''"]  by (simp add: classifyFile_def startsWith_def isDocumentType_def)

section \<open>Translation\<close>

text \<open>
  C7, as stated. When both remote attempts fail, \<open>translateText\<close> is claimed to consult
  the phrase table and, with no phrase found, to return the text in a language-tagged
  note. The table has \<open>hello\<close> \<open>\<mapsto>\<close> \<open>hola\<close>, yet the translation of \<open>hello\<close> under two
  failed attempts is not \<open>hola\<close>; and for a text with no phrase in it the result is not
  the language-tagged note.
\<close>

theorem translateText_ignores_phrase_table:
  "wholePhrase EN ES ''hello'' = OwnPhrase ''hola'' \<and>
   translatedText (translateText ''hello'' ES (Src EN) MyMemoryFailed LibreFailed) \<noteq> ''hola'' \<and>
   translatedText (translateText ''xyzzy'' ES (Src EN) MyMemoryFailed LibreFailed) \<noteq>
     helpMessage ES ''xyzzy''"
  by (simp add: wholePhrase_def phraseTranslations_def en_to_es_def translateText_def tryRealTranslation_def cleanMessage_def helpMessage_def)

text \<open>
  C7, amended. When the source language differs from the target and both remote attempts
  fail, \<open>translateText\<close> does not consult the phrase table: it returns, without throwing,
  a result with \<open>success\<close> set whose translation is the original text between quotes after
  a speech-balloon sign, the same for both target languages; that translation is never
  empty.
\<close>

theorem translateText_both_remote_fail:
  "sourceLang \<noteq> Src targetLang \<Longrightarrow>
   translateText text targetLang sourceLang MyMemoryFailed LibreFailed =
     \<lparr>originalText = text, translatedText = cleanMessage text,
      sourceLanguage = source_code sourceLang, targetLanguage = targetLang,
      success = True, error_text = None\<rparr> \<and>
   translatedText (translateText text targetLang sourceLang MyMemoryFailed LibreFailed) \<noteq> []"
  by (simp add: translateText_def tryRealTranslation_def cleanMessage_def)

theorem translateText_both_remote_fail_witness:
  "Src EN \<noteq> Src ES \<and>
   translatedText (translateText ''hello'' ES (Src EN) MyMemoryFailed LibreFailed) =
     [CHR 0xF0, CHR 0x9F, CHR 0x92, CHR 0xAC] @ '' '' @ [CHR 0x22] @ ''hello'' @ [CHR 0x22]"
  using translateText_both_remote_fail [of "Src EN" ES "''hello''"]
  by (simp add: cleanMessage_def)

section \<open>Default folders\<close>

lemma setup_existing:
  "projectFolders d p \<noteq> [] \<Longrightarrow>
   setupDefaultFolders now p r d =
     (d, \<lparr>sr_message = ''Default folders already exist'', sr_foldersCreated = 0,
          sr_folders = None\<rparr>)"
  by (simp add: setupDefaultFolders_def)

lemma setup_fresh_folders:
  "projectFolders d p = [] \<Longrightarrow>
   project_folders (fst (setupDefaultFolders now p r d)) =
     project_folders d @
       map (\<lambda>(k, df). (next_id d + k,
              \<lparr>fld_project_id = p, fld_name = df_name df, fld_parent_folder_id = None,
               fld_color = Some (df_color df), fld_icon = Some (df_icon df),
               fld_created_by = r, fld_created_at = now\<rparr>))
         (zip [0 ..< 4] defaultFolders)"
  by (simp add: setupDefaultFolders_def defaultFolders_def insert_folder_def Let_def upt_rec)

lemma setup_fresh_rest:
  "projectFolders d p = [] \<Longrightarrow>
   (fst (setupDefaultFolders now p r d))\<lparr>project_folders := project_folders d, next_id := next_id d\<rparr> = d \<and>
   next_id (fst (setupDefaultFolders now p r d)) = next_id d + 4 \<and>
   sr_foldersCreated (snd (setupDefaultFolders now p r d)) = 4"
  by (simp add: setupDefaultFolders_def defaultFolders_def insert_folder_def Let_def)

lemma projectFolders_append:
  "project_folders d' = project_folders d @ xs \<Longrightarrow>
   projectFolders d' p = projectFolders d p @ filter (\<lambda>(i, f). fld_project_id f = p) xs"
  by (simp add: projectFolders_def)

lemma setup_after_nonempty: "projectFolders (fst (setupDefaultFolders now p r d)) p \<noteq> []"
proof (cases "projectFolders d p = []")
  case True
  show ?thesis
    using projectFolders_append [OF setup_fresh_folders [OF True, of now r], of p]
    by (simp add: defaultFolders_def upt_rec)
next
  case False
  then show ?thesis by (simp add: setup_existing)
qed

lemma setupRepeatedly_existing:
  "projectFolders d p \<noteq> [] \<Longrightarrow> setupRepeatedly nows p r d = (d, replicate (length nows) 0)"
  by (induction nows) (simp_all add: setup_existing)

text \<open>
  C5. \<open>setupDefaultFolders\<close> is idempotent. If the project already has a folder, the
  call changes nothing and reports zero folders created. Otherwise it appends exactly
  four folders of the project, named Images, Documents, PDFs and Other, changes nothing
  else but the identifier counter, and reports four. Hence in any run of one or more
  calls in succession only the first can create folders, and every later call reports
  zero.
\<close>

theorem setupDefaultFolders_idempotent:
  "(projectFolders d p \<noteq> [] \<longrightarrow>
      setupDefaultFolders now p r d =
        (d, \<lparr>sr_message = ''Default folders already exist'', sr_foldersCreated = 0,
             sr_folders = None\<rparr>)) \<and>
   (projectFolders d p = [] \<longrightarrow>
      take (length (project_folders d)) (project_folders (fst (setupDefaultFolders now p r d)))
        = project_folders d \<and>
      folder_names (drop (length (project_folders d))
                      (project_folders (fst (setupDefaultFolders now p r d))))
        = [(next_id d, p, ''Images''), (next_id d + 1, p, ''Documents''),
           (next_id d + 2, p, ''PDFs''), (next_id d + 3, p, ''Other'')] \<and>
      (fst (setupDefaultFolders now p r d))
        \<lparr>project_folders := project_folders d, next_id := next_id d\<rparr> = d \<and>
      sr_foldersCreated (snd (setupDefaultFolders now p r d)) = 4) \<and>
   setupRepeatedly (now # nows) p r d =
     (fst (setupDefaultFolders now p r d),
      sr_foldersCreated (snd (setupDefaultFolders now p r d)) # replicate (length nows) 0)"
proof -
  have a: "projectFolders d p \<noteq> [] \<longrightarrow>
      setupDefaultFolders now p r d =
        (d, \<lparr>sr_message = ''Default folders already exist'', sr_foldersCreated = 0,
             sr_folders = None\<rparr>)"
    by (simp add: setup_existing)
  have b: "projectFolders d p = [] \<longrightarrow>
      take (length (project_folders d)) (project_folders (fst (setupDefaultFolders now p r d)))
        = project_folders d \<and>
      folder_names (drop (length (project_folders d))
                      (project_folders (fst (setupDefaultFolders now p r d))))
        = [(next_id d, p, ''Images''), (next_id d + 1, p, ''Documents''),
           (next_id d + 2, p, ''PDFs''), (next_id d + 3, p, ''Other'')] \<and>
      (fst (setupDefaultFolders now p r d))
        \<lparr>project_folders := project_folders d, next_id := next_id d\<rparr> = d \<and>
      sr_foldersCreated (snd (setupDefaultFolders now p r d)) = 4"
    using setup_fresh_rest [of d p now r]
    by (simp add: setup_fresh_folders folder_names_def defaultFolders_def upt_rec)
  have c: "setupRepeatedly (now # nows) p r d =
     (fst (setupDefaultFolders now p r d),
      sr_foldersCreated (snd (setupDefaultFolders now p r d)) # replicate (length nows) 0)"
    using setupRepeatedly_existing [OF setup_after_nonempty]
    by (simp add: split_beta)
  show ?thesis using a b c by blast
qed

theorem setupDefaultFolders_idempotent_witness:
  "projectFolders project_db 1 = [] \<and>
   folder_names (project_folders (fst (setupDefaultFolders ''t1'' 1 Developer project_db)))
     = [(2, 1, ''Images''), (3, 1, ''Documents''), (4, 1, ''PDFs''), (5, 1, ''Other'')] \<and>
   projectFolders (fst (setupDefaultFolders ''t1'' 1 Developer project_db)) 1 \<noteq> [] \<and>
   setupRepeatedly [''t1'', ''t2'', ''t3''] 1 Developer project_db =
     (fst (setupDefaultFolders ''t1'' 1 Developer project_db), [4, 0, 0])"
proof -
  have e: "projectFolders project_db 1 = []"
    by (simp add: projectFolders_def project_db_def empty_db_def)
  have n: "next_id project_db = 2" "project_folders project_db = []"
    by (simp_all add: project_db_def empty_db_def)
  show ?thesis
    using e n setupDefaultFolders_idempotent [of project_db 1 "''t1''" Developer "[''t2'', ''t3'']"]
      setup_after_nonempty [of "''t1''" 1 Developer project_db]
    by (simp add: numeral_eq_Suc)
qed

section \<open>Auto-organizing files\<close>

lemma setup_project_files:
  "project_files (fst (setupDefaultFolders now p r d)) = project_files d"
  by (simp add: setupDefaultFolders_def defaultFolders_def insert_folder_def Let_def)

lemma orElse_Some: "\<exists>y. b = Some y \<Longrightarrow> \<exists>y. orElse a b = Some y"
  by (cases a) (simp_all add: orElse_def)

lemma firstFolderId_Some: "folders \<noteq> [] \<Longrightarrow> \<exists>y. firstFolderId folders = Some y"
  by (cases folders) (auto simp: firstFolderId_def)

lemma getAutoFolderId_Some:
  "\<exists>target. getAutoFolderId now p fileType d =
      (fst (setupDefaultFolders now p Client d), Some target)"
proof -
  let ?d1 = "fst (setupDefaultFolders now p Client d)"
  have "\<exists>y. firstFolderId (projectFolders ?d1 p) = Some y"
    by (simp add: firstFolderId_Some setup_after_nonempty)
  then have "\<exists>y. snd (getAutoFolderId now p fileType d) = Some y"
    by (simp add: getAutoFolderId_def Let_def split_beta orElse_Some)
  moreover have "fst (getAutoFolderId now p fileType d) = ?d1"
    by (simp add: getAutoFolderId_def Let_def split_beta)
  ultimately show ?thesis
    by (cases "getAutoFolderId now p fileType d") auto
qed

lemma patchedRow_step:
  assumes "patchedRow now S
             (if fst x = i then (fst x, (snd x)\<lparr>pf_folder_id := Some target, pf_moved_at := Some now\<rparr>)
              else x) z"
  shows "patchedRow now (insert i S) x z"
  using assms by (auto simp: patchedRow_def split: if_splits)

lemma patchedRow_ids: "list_all2 (patchedRow now S) xs ys \<Longrightarrow> map fst ys = map fst xs"
  by (induction rule: list_all2_induct) (auto simp: patchedRow_def)

lemma organizeLoop_total:
  "fst ` set todo \<subseteq> fst ` set (project_files d) \<Longrightarrow>
   \<exists>d'. organizeLoop now p todo (d, c) = Inr (d', c + length todo) \<and>
        list_all2 (patchedRow now (fst ` set todo)) (project_files d) (project_files d')"
proof (induction todo arbitrary: d c)
  case Nil
  have "list_all2 (patchedRow now {}) xs xs" for xs
    by (simp add: list_all2_same patchedRow_def)
  then show ?case by simp
next
  case (Cons row rest)
  obtain i fl where row: "row = (i, fl)" by (cases row)
  let ?d1 = "fst (setupDefaultFolders now p Client d)"
  obtain target where g: "getAutoFolderId now p (pf_file_type fl) d = (?d1, Some target)"
    using getAutoFolderId_Some by blast
  let ?f = "\<lambda>f. f\<lparr>pf_folder_id := Some target, pf_moved_at := Some now\<rparr>"
  let ?h = "\<lambda>(j, r). if j = i then (j, ?f r) else (j, r)"
  let ?fs = "map ?h (project_files d)"
  have has: "thas (project_files ?d1) i"
    using Cons.prems by (simp add: row thas_def setup_project_files)
  have p: "tpatch i ?f (project_files ?d1) = Inr ?fs"
    using has by (simp add: tpatch_thas setup_project_files)
  let ?d2 = "?d1\<lparr>project_files := ?fs\<rparr>"
  have step: "organizeLoop now p (row # rest) (d, c) = organizeLoop now p rest (?d2, c + 1)"
    unfolding row organizeLoop.simps g
    by (simp only: Let_def prod.case option.case p sum.case)
  have "map fst ?fs = map fst (project_files d)"
    using tpatch_ids [OF p] by (simp add: setup_project_files)
  then have "set (map fst ?fs) = set (map fst (project_files d))"
    by (rule arg_cong)
  then have ids: "fst ` set ?fs = fst ` set (project_files d)"
    by (simp only: set_map)
  have sub: "fst ` set rest \<subseteq> fst ` set (project_files ?d2)"
    using Cons.prems ids by simp
  obtain d' where r: "organizeLoop now p rest (?d2, c + 1) = Inr (d', c + 1 + length rest)"
    and l: "list_all2 (patchedRow now (fst ` set rest)) (project_files ?d2) (project_files d')"
    using Cons.IH [OF sub, of "c + 1"] by blast
  have "list_all2 (\<lambda>x. patchedRow now (fst ` set rest) (?h x)) (project_files d) (project_files d')"
    using l by (simp add: list_all2_map1)
  then have "list_all2 (patchedRow now (insert i (fst ` set rest))) (project_files d) (project_files d')"
  proof (rule list_all2_mono)
    fix x z
    assume a: "patchedRow now (fst ` set rest) (?h x) z"
    have "?h x = (if fst x = i then (fst x, (snd x)\<lparr>pf_folder_id := Some target, pf_moved_at := Some now\<rparr>) else x)"
      by (cases x) simp
    then have "patchedRow now (fst ` set rest)
        (if fst x = i then (fst x, (snd x)\<lparr>pf_folder_id := Some target, pf_moved_at := Some now\<rparr>) else x) z"
      using a by (simp only:)
    then show "patchedRow now (insert i (fst ` set rest)) x z"
      by (rule patchedRow_step)
  qed
  then show ?case using step r by (simp add: row)
qed

lemma unorganized_ids:
  assumes "distinct (map fst (project_files d))" and "(i, f) \<in> set (project_files d)"
  shows "i \<in> fst ` set (unorganizedFiles d p) \<longleftrightarrow> pf_project_id f = p \<and> pf_folder_id f = None"
proof
  assume "i \<in> fst ` set (unorganizedFiles d p)"
  then obtain g where g: "(i, g) \<in> set (project_files d)" "pf_project_id g = p \<and> pf_folder_id g = None"
    by (auto simp: unorganizedFiles_def)
  then have "g = f" using assms eq_key_imp_eq_value by metis
  then show "pf_project_id f = p \<and> pf_folder_id f = None" using g by simp
next
  assume "pf_project_id f = p \<and> pf_folder_id f = None"
  then have "(i, f) \<in> set (unorganizedFiles d p)" using assms(2) by (simp add: unorganizedFiles_def)
  then show "i \<in> fst ` set (unorganizedFiles d p)" by force
qed

lemma organized_none_left:
  "list_all2 (organizedRow now p) xs ys \<Longrightarrow>
   filter (\<lambda>(i, f). pf_project_id f = p \<and> pf_folder_id f = None) ys = []"
proof (induction rule: list_all2_induct)
  case Nil
  then show ?case by simp
next
  case (Cons x xs y ys)
  have "\<not> (pf_project_id (snd y) = p \<and> pf_folder_id (snd y) = None)"
    using Cons(1) by (auto simp: organizedRow_def split: if_splits)
  then show ?case using Cons by (simp add: split_beta)
qed

text \<open>
  C6. \<open>autoOrganizeFiles\<close> is idempotent. On a file table without duplicate ids the
  run succeeds and reports as many files as the project had without a folder; it gives a
  folder to exactly those files and leaves every other row, the files that already had a
  folder included, as it was; afterwards the project has no file without a folder, and a
  second run, at any later time, changes nothing and reports zero files organized.
\<close>

theorem autoOrganizeFiles_idempotent:
  assumes "distinct (map fst (project_files d))"
  shows "\<exists>d1. autoOrganizeFiles now p d =
            Inr (d1, \<lparr>or_message = ''Files organized successfully'',
                      or_filesOrganized = length (unorganizedFiles d p)\<rparr>) \<and>
          list_all2 (organizedRow now p) (project_files d) (project_files d1) \<and>
          unorganizedFiles d1 p = [] \<and>
          autoOrganizeFiles now2 p d1 =
            Inr (d1, \<lparr>or_message = ''Files organized successfully'',
                      or_filesOrganized = 0\<rparr>)"
proof -
  let ?todo = "unorganizedFiles d p"
  have "fst ` set ?todo \<subseteq> fst ` set (project_files d)"
    by (auto simp: unorganizedFiles_def)
  then obtain d1 where r: "organizeLoop now p ?todo (d, 0) = Inr (d1, 0 + length ?todo)"
    and l: "list_all2 (patchedRow now (fst ` set ?todo)) (project_files d) (project_files d1)"
    using organizeLoop_total by blast
  have o: "list_all2 (organizedRow now p) (project_files d) (project_files d1)"
    using l
  proof (rule list.rel_mono_strong)
    fix x z
    assume x: "x \<in> set (project_files d)" and a: "patchedRow now (fst ` set ?todo) x z"
    have "fst x \<in> fst ` set ?todo \<longleftrightarrow> pf_project_id (snd x) = p \<and> pf_folder_id (snd x) = None"
      using unorganized_ids [OF assms, of "fst x" "snd x" p] x by simp
    then show "organizedRow now p x z"
      using a by (simp add: patchedRow_def organizedRow_def)
  qed
  have e: "unorganizedFiles d1 p = []"
    using organized_none_left [OF o] by (simp add: unorganizedFiles_def)
  have "autoOrganizeFiles now p d =
            Inr (d1, \<lparr>or_message = ''Files organized successfully'',
                      or_filesOrganized = length ?todo\<rparr>)"
    using r by (simp add: autoOrganizeFiles_def)
  moreover have "autoOrganizeFiles now2 p d1 =
            Inr (d1, \<lparr>or_message = ''Files organized successfully'', or_filesOrganized = 0\<rparr>)"
    using e by (simp add: autoOrganizeFiles_def)
  ultimately show ?thesis using o e by blast
qed

theorem autoOrganizeFiles_idempotent_witness:
  "distinct (map fst (project_files files_db)) \<and>
   length (unorganizedFiles files_db 1) = 2 \<and>
   (\<exists>d1. autoOrganizeFiles ''t1'' 1 files_db =
            Inr (d1, \<lparr>or_message = ''Files organized successfully'', or_filesOrganized = 2\<rparr>) \<and>
         unorganizedFiles d1 1 = [] \<and>
         autoOrganizeFiles ''t2'' 1 d1 =
            Inr (d1, \<lparr>or_message = ''Files organized successfully'', or_filesOrganized = 0\<rparr>))"
proof -
  have h: "distinct (map fst (project_files files_db))"
    by (simp add: files_db_def project_db_def empty_db_def)
  have n: "length (unorganizedFiles files_db 1) = 2"
    by (simp add: unorganizedFiles_def files_db_def project_db_def empty_db_def example_file_def)
  show ?thesis
    using h n autoOrganizeFiles_idempotent [OF h, of "''t1''" 1 "''t2''"] by auto
qed

text \<open>
  The run on the example store: the default folders are created on the way, the image
  goes to Images and the PDF to PDFs.
\<close>

lemma autoOrganizeFiles_example_run:
  "map_sum id (\<lambda>(d, r). (map (\<lambda>(i, f). (i, pf_folder_id f)) (project_files d),
                         folder_names (project_folders d), or_filesOrganized r))
     (autoOrganizeFiles ''t1'' 1 files_db) =
   Inr ([(2, Some 4), (3, Some 6)],
        [(4, 1, ''Images''), (5, 1, ''Documents''), (6, 1, ''PDFs''), (7, 1, ''Other'')], 2)"
  by (simp add: autoOrganizeFiles_def unorganizedFiles_def files_db_def project_db_def empty_db_def
      example_file_def getAutoFolderId_def setupDefaultFolders_def projectFolders_def
      defaultFolders_def insert_folder_def Let_def folderMapOf_def folderMapStep_def
      startsWith_def isDocumentType_def orElse_def firstFolderId_def tpatch_def thas_def
      folder_names_def example_project_def)

section \<open>Deleting a project\<close>












lemmas notified_defs =
  notified_db_def message_db_def example_db_def empty_db_def example_message_def
  base_message_def example_notification_def example_thread_def example_project_def






text \<open>The run on the store with one project empties the four tables.\<close>

lemma deleteProject_example_run:
  "map_sum id (\<lambda>(d, r). (projects d, threads d, messages d, notifications d, dr_deleted_threads r))
     (deleteProject 1 notified_db) = Inr ([], [], [], [], 1)"
  by (simp add: deleteProject_def deleteProjectBody_def projectThreads_def threadMessages_def
      threadNotifications_def projectNotifications_def tdelete_def thas_def notified_defs)

section \<open>Migration\<close>

lemma find_in_table: "find P t = Some (i, r) \<Longrightarrow> thas t i"
  by (induction t) (auto simp: thas_def split: if_splits)

lemma tpatch_length: "tpatch i f t = Inr t' \<Longrightarrow> length t' = length t"
  by (auto simp: tpatch_def split: if_splits)

lemma patch_found:
  "\<exists>t'. (case find P t of None \<Rightarrow> Inr t
          | Some (lid, l) \<Rightarrow> tpatch lid f t) = Inr t' \<and> length t' = length t"
proof (cases "find P t")
  case None
  then show ?thesis by simp
next
  case (Some x)
  obtain lid l where x: "x = (lid, l)" by (cases x)
  have "thas t lid" using Some x find_in_table by metis
  then show ?thesis using Some x by (simp add: tpatch_thas)
qed


lemma migrateOne_effect:
  "\<exists>d'. migrateOne now pid fb d = Inr d' \<and>
     clients d' = clients d \<and> projects d' = projects d \<and> feedbacks d' = feedbacks d \<and>
     map (\<lambda>(i, t). (thr_project_id t, thr_title t)) (threads d') =
       map (\<lambda>(i, t). (thr_project_id t, thr_title t)) (threads d) @ [(pid, fb_subject fb)] \<and>
     length (messages d') =
       length (messages d) + 1 + (if truthy (fb_developer_notes fb) then 1 else 0) \<and>
     length (legacy_feedbacks d') = length (legacy_feedbacks d) + 1"
proof -
  let ?l = "\<lparr>lf_category = fb_category fb,
             lf_subject = fb_subject fb,
             lf_description = fb_description fb,
             lf_status = fb_status fb,
             lf_priority = fb_priority fb,
             lf_developer_notes = fb_developer_notes fb,
             lf_client_response = fb_client_response fb,
             lf_migrated_to_thread = None,
             lf_migration_date = Some now,
             lf_created_at = fb_creation_time fb\<rparr>"
  let ?ls = "legacy_feedbacks d @ [(next_id d, ?l)]"
  let ?P = "\<lambda>(i, l). lf_subject l = fb_subject fb"
  show ?thesis
  proof (cases "find ?P ?ls")
    case None
    then show ?thesis
      by (simp add: migrateOne_def Let_def insert_legacy_def insert_thread_def
          insert_message_def split_beta)
  next
    case (Some x)
    obtain lid l where x: "x = (lid, l)" by (cases x)
    have h: "thas ?ls lid" using Some x find_in_table by metis
    show ?thesis
      using Some x tpatch_thas [OF h]
      by (simp add: migrateOne_def Let_def insert_legacy_def insert_thread_def
          insert_message_def split_beta)
  qed
qed


lemma migrateLoop_effect:
  "\<exists>d'. migrateLoop now pid fbs (d, c) = Inr (d', c + length fbs) \<and>
     clients d' = clients d \<and> projects d' = projects d \<and> feedbacks d' = feedbacks d \<and>
     map (\<lambda>(i, t). (thr_project_id t, thr_title t)) (threads d') =
       map (\<lambda>(i, t). (thr_project_id t, thr_title t)) (threads d) @
       map (\<lambda>(i, fb). (pid, fb_subject fb)) fbs \<and>
     length (messages d') = length (messages d) + length fbs + notesCount fbs \<and>
     length (legacy_feedbacks d') = length (legacy_feedbacks d) + length fbs"
proof (induction fbs arbitrary: d c)
  case Nil
  then show ?case by (simp add: notesCount_def)
next
  case (Cons row rest)
  obtain i fb where row: "row = (i, fb)" by (cases row)
  obtain d1 where one: "migrateOne now pid fb d = Inr d1"
    and k: "clients d1 = clients d" "projects d1 = projects d" "feedbacks d1 = feedbacks d"
    and t: "map (\<lambda>(i, t). (thr_project_id t, thr_title t)) (threads d1) =
       map (\<lambda>(i, t). (thr_project_id t, thr_title t)) (threads d) @ [(pid, fb_subject fb)]"
    and m: "length (messages d1) =
       length (messages d) + 1 + (if truthy (fb_developer_notes fb) then 1 else 0)"
    and l: "length (legacy_feedbacks d1) = length (legacy_feedbacks d) + 1"
    using migrateOne_effect [of now pid fb d] by (elim exE conjE)
  obtain d' where loop: "migrateLoop now pid rest (d1, c + 1) = Inr (d', c + 1 + length rest)"
    and k': "clients d' = clients d1" "projects d' = projects d1" "feedbacks d' = feedbacks d1"
    and t': "map (\<lambda>(i, t). (thr_project_id t, thr_title t)) (threads d') =
       map (\<lambda>(i, t). (thr_project_id t, thr_title t)) (threads d1) @
       map (\<lambda>(i, fb). (pid, fb_subject fb)) rest"
    and m': "length (messages d') = length (messages d1) + length rest + notesCount rest"
    and l': "length (legacy_feedbacks d') = length (legacy_feedbacks d1) + length rest"
    using Cons.IH [of d1 "c + 1"] by (elim exE conjE)
  have step: "migrateLoop now pid (row # rest) (d, c) = Inr (d', c + length (row # rest))"
    using one loop by (simp add: row)
  have nc: "notesCount (row # rest) =
      (if truthy (fb_developer_notes fb) then 1 else 0) + notesCount rest"
    by (simp add: notesCount_def row)
  show ?case
  proof (rule exI [of _ d'], intro conjI)
    show "migrateLoop now pid (row # rest) (d, c) = Inr (d', c + length (row # rest))"
      by (rule step)
    show "clients d' = clients d" using k k' by simp
    show "projects d' = projects d" using k k' by simp
    show "feedbacks d' = feedbacks d" using k k' by simp
    show "map (\<lambda>(i, t). (thr_project_id t, thr_title t)) (threads d') =
       map (\<lambda>(i, t). (thr_project_id t, thr_title t)) (threads d) @
       map (\<lambda>(i, fb). (pid, fb_subject fb)) (row # rest)"
      using t t' by (simp add: row)
    show "length (messages d') =
       length (messages d) + length (row # rest) + notesCount (row # rest)"
      using m m' nc by simp
    show "length (legacy_feedbacks d') = length (legacy_feedbacks d) + length (row # rest)"
      using l l' by simp
  qed
qed

lemma createSamples_effect:
  "clients (fst (createSamples now cid sampleProjects (d, []))) = clients d \<and>
   threads (fst (createSamples now cid sampleProjects (d, []))) = threads d \<and>
   messages (fst (createSamples now cid sampleProjects (d, []))) = messages d \<and>
   map (\<lambda>(i, p). (prj_client_id p, prj_type p))
       (projects (fst (createSamples now cid sampleProjects (d, [])))) =
     map (\<lambda>(i, p). (prj_client_id p, prj_type p)) (projects d) @
       [(cid, Cards), (cid, LeadGen)]"
  by (simp add: sampleProjects_def insert_project_def Let_def)

lemma findClient_None:
  "findClient d name = None \<longleftrightarrow> (\<forall>(i, c) \<in> set (clients d). cli_name c \<noteq> name)"
  by (auto simp: findClient_def find_None_iff)

lemma find_Some_member: "find P t = Some x \<Longrightarrow> x \<in> set t \<and> P x"
  by (induction t) (auto split: if_splits)

lemma findClient_Some:
  "findClient d name = Some (i, c) \<Longrightarrow> (i, c) \<in> set (clients d) \<and> cli_name c = name"
  using find_Some_member [of "\<lambda>(i, c). cli_name c = name" "clients d" "(i, c)"]
  by (simp add: findClient_def)

text \<open>
  C9. \<open>migrateFeedbackData\<close> is guarded by an existence check on the target name (the
  given name, or \<open>Cliente Principal\<close> when none or an empty one is given). If a client
  with that name exists, the call returns the store unchanged, with the id of such a
  client and no success flag. Only otherwise does it create: it succeeds, appends the
  client under the next id, the main project and the two sample projects of that client,
  one thread of the main project per feedback record, titled by its subject, and one
  message per record plus one per record with developer notes.
\<close>

theorem migrateFeedbackData_guard:
  "(if \<exists>i c. (i, c) \<in> set (clients d) \<and> cli_name c = targetName client_name
    then \<exists>i c. (i, c) \<in> set (clients d) \<and> cli_name c = targetName client_name \<and>
           migrateFeedbackData now client_name d = Inr (d, already_migrated i)
    else \<exists>d' res. migrateFeedbackData now client_name d = Inr (d', res) \<and>
           mr_success res \<and> mr_client_id res = next_id d \<and>
           mr_main_project_id res = Some (Suc (next_id d)) \<and>
           mr_migrated_feedback_count res = Some (length (feedbacks d)) \<and>
           map (\<lambda>(i, c). (i, cli_name c)) (clients d') =
             map (\<lambda>(i, c). (i, cli_name c)) (clients d) @ [(next_id d, targetName client_name)] \<and>
           map (\<lambda>(i, p). (prj_client_id p, prj_type p)) (projects d') =
             map (\<lambda>(i, p). (prj_client_id p, prj_type p)) (projects d) @
               [(next_id d, Presentation), (next_id d, Cards), (next_id d, LeadGen)] \<and>
           map (\<lambda>(i, t). (thr_project_id t, thr_title t)) (threads d') =
             map (\<lambda>(i, t). (thr_project_id t, thr_title t)) (threads d) @
               map (\<lambda>(i, fb). (Suc (next_id d), fb_subject fb)) (feedbacks d) \<and>
           length (messages d') =
             length (messages d) + length (feedbacks d) + notesCount (feedbacks d))"
proof (cases "findClient d (targetName client_name)")
  case (Some x)
  obtain i c where x: "x = (i, c)" by (cases x)
  have mem: "(i, c) \<in> set (clients d) \<and> cli_name c = targetName client_name"
    using Some x findClient_Some by metis
  have "migrateFeedbackData now client_name d = Inr (d, already_migrated i)"
    using Some x by (simp add: migrateFeedbackData_def already_migrated_def)
  then have "\<exists>i c. (i, c) \<in> set (clients d) \<and> cli_name c = targetName client_name \<and>
           migrateFeedbackData now client_name d = Inr (d, already_migrated i)"
    using mem by blast
  moreover have "\<exists>i c. (i, c) \<in> set (clients d) \<and> cli_name c = targetName client_name"
    using mem by blast
  ultimately show ?thesis by (simp only: if_True)
next
  case None
  have no: "\<not> (\<exists>i c. (i, c) \<in> set (clients d) \<and> cli_name c = targetName client_name)"
    using None by (auto simp: findClient_None)
  let ?n = "next_id d"
  let ?d2 = "d\<lparr>clients := clients d @ [(?n, mainClient now (targetName client_name))],
               next_id := Suc ?n,
               projects := projects d @ [(Suc ?n, mainProject now ?n)],
               next_id := Suc (Suc ?n)\<rparr>"
  have unf: "migrateFeedbackData now client_name d =
      (case migrateLoop now (Suc ?n) (feedbacks ?d2) (?d2, 0) of
         Inl e \<Rightarrow> Inl e
       | Inr (d3, migratedCount) \<Rightarrow>
           (let (d4, sampleProjectIds) = createSamples now ?n sampleProjects (d3, [])
            in Inr (d4, \<lparr>mr_success = True,
                         mr_message = ''Migration completed successfully'',
                         mr_client_id = ?n,
                         mr_main_project_id = Some (Suc ?n),
                         mr_migrated_feedback_count = Some migratedCount,
                         mr_sample_project_ids = Some sampleProjectIds,
                         mr_total_projects = Some (length sampleProjects + 1)\<rparr>)))"
    using None
    by (simp add: migrateFeedbackData_def insert_client_def insert_project_def Let_def
        cong del: sum.case_cong_weak)
  have d2: "clients ?d2 = clients d @ [(?n, mainClient now (targetName client_name))]"
    "projects ?d2 = projects d @ [(Suc ?n, mainProject now ?n)]"
    "threads ?d2 = threads d" "messages ?d2 = messages d" "feedbacks ?d2 = feedbacks d"
    by simp_all
  have mpt: "prj_client_id (mainProject now ?n) = ?n" "prj_type (mainProject now ?n) = Presentation"
    "cli_name (mainClient now (targetName client_name)) = targetName client_name"
    by (simp_all add: mainProject_def mainClient_def)
  obtain d3 where loop: "migrateLoop now (Suc ?n) (feedbacks ?d2) (?d2, 0) =
        Inr (d3, 0 + length (feedbacks ?d2))"
    and k: "clients d3 = clients ?d2" "projects d3 = projects ?d2"
    and t: "map (\<lambda>(i, t). (thr_project_id t, thr_title t)) (threads d3) =
       map (\<lambda>(i, t). (thr_project_id t, thr_title t)) (threads ?d2) @
       map (\<lambda>(i, fb). (Suc ?n, fb_subject fb)) (feedbacks ?d2)"
    and m: "length (messages d3) =
       length (messages ?d2) + length (feedbacks ?d2) + notesCount (feedbacks ?d2)"
    using migrateLoop_effect [of now "Suc ?n" "feedbacks ?d2" ?d2 0] by (elim exE conjE)
  let ?d4 = "fst (createSamples now ?n sampleProjects (d3, []))"
  let ?res = "\<lparr>mr_success = True,
                mr_message = ''Migration completed successfully'',
                mr_client_id = ?n,
                mr_main_project_id = Some (Suc ?n),
                mr_migrated_feedback_count = Some (length (feedbacks d)),
                mr_sample_project_ids = Some (snd (createSamples now ?n sampleProjects (d3, []))),
                mr_total_projects = Some (length sampleProjects + 1)\<rparr>"
  have run: "migrateFeedbackData now client_name d = Inr (?d4, ?res)"
    unfolding unf loop by (simp add: split_beta d2)
  note s = createSamples_effect [of now ?n d3]
  have "\<exists>d' res. migrateFeedbackData now client_name d = Inr (d', res) \<and>
           mr_success res \<and> mr_client_id res = next_id d \<and>
           mr_main_project_id res = Some (Suc (next_id d)) \<and>
           mr_migrated_feedback_count res = Some (length (feedbacks d)) \<and>
           map (\<lambda>(i, c). (i, cli_name c)) (clients d') =
             map (\<lambda>(i, c). (i, cli_name c)) (clients d) @ [(next_id d, targetName client_name)] \<and>
           map (\<lambda>(i, p). (prj_client_id p, prj_type p)) (projects d') =
             map (\<lambda>(i, p). (prj_client_id p, prj_type p)) (projects d) @
               [(next_id d, Presentation), (next_id d, Cards), (next_id d, LeadGen)] \<and>
           map (\<lambda>(i, t). (thr_project_id t, thr_title t)) (threads d') =
             map (\<lambda>(i, t). (thr_project_id t, thr_title t)) (threads d) @
               map (\<lambda>(i, fb). (Suc (next_id d), fb_subject fb)) (feedbacks d) \<and>
           length (messages d') =
             length (messages d) + length (feedbacks d) + notesCount (feedbacks d)"
  proof (rule exI [of _ ?d4], rule exI [of _ ?res], intro conjI)
    show "migrateFeedbackData now client_name d = Inr (?d4, ?res)" by (rule run)
    show "mr_success ?res" by simp
    show "mr_client_id ?res = ?n" by simp
    show "mr_main_project_id ?res = Some (Suc ?n)" by simp
    show "mr_migrated_feedback_count ?res = Some (length (feedbacks d))" by simp
    show "map (\<lambda>(i, c). (i, cli_name c)) (clients ?d4) =
             map (\<lambda>(i, c). (i, cli_name c)) (clients d) @ [(?n, targetName client_name)]"
      using s k d2 mpt by simp
    show "map (\<lambda>(i, p). (prj_client_id p, prj_type p)) (projects ?d4) =
             map (\<lambda>(i, p). (prj_client_id p, prj_type p)) (projects d) @
               [(?n, Presentation), (?n, Cards), (?n, LeadGen)]"
      using s k d2 mpt by simp
    show "map (\<lambda>(i, t). (thr_project_id t, thr_title t)) (threads ?d4) =
             map (\<lambda>(i, t). (thr_project_id t, thr_title t)) (threads d) @
               map (\<lambda>(i, fb). (Suc ?n, fb_subject fb)) (feedbacks d)"
      using s t d2 by simp
    show "length (messages ?d4) =
             length (messages d) + length (feedbacks d) + notesCount (feedbacks d)"
      using s m d2 by simp
  qed
  then show ?thesis using no by (simp only: if_False)
qed

theorem migrateFeedbackData_guard_witness:
  "(\<exists>d' res. migrateFeedbackData ''now'' None feedback_db = Inr (d', res) \<and>
      mr_success res \<and> mr_client_id res = 2 \<and>
      map (\<lambda>(i, c). (i, cli_name c)) (clients d') = [(2, ''Cliente Principal'')] \<and>
      map (\<lambda>(i, t). (thr_project_id t, thr_title t)) (threads d') = [(3, ''a''), (3, ''b'')] \<and>
      length (messages d') = 3) \<and>
   migrateFeedbackData ''now'' (Some []) client_db = Inr (client_db, already_migrated 0)"
proof -
  have no: "\<not> (\<exists>i c. (i, c) \<in> set (clients feedback_db) \<and> cli_name c = targetName None)"
    by (simp add: feedback_db_def empty_db_def)
  have f: "feedbacks feedback_db = [(0, example_feedback ''a'' FNew None),
                             (1, example_feedback ''b'' FCompleted (Some ''fixed''))]"
    "next_id feedback_db = 2" "clients feedback_db = []" "threads feedback_db = []"
    "messages feedback_db = []"
    by (simp_all add: feedback_db_def empty_db_def)
  have nc: "notesCount (feedbacks feedback_db) = 1"
    by (simp add: f notesCount_def example_feedback_def truthy_def)
  have t: "targetName None = ''Cliente Principal''" "targetName (Some []) = ''Cliente Principal''"
    by (simp_all add: targetName_def)
  obtain d' res where r: "migrateFeedbackData ''now'' None feedback_db = Inr (d', res)"
    and s: "mr_success res" "mr_client_id res = next_id feedback_db"
    and c: "map (\<lambda>(i, c). (i, cli_name c)) (clients d') =
             map (\<lambda>(i, c). (i, cli_name c)) (clients feedback_db) @
               [(next_id feedback_db, targetName None)]"
    and th: "map (\<lambda>(i, t). (thr_project_id t, thr_title t)) (threads d') =
             map (\<lambda>(i, t). (thr_project_id t, thr_title t)) (threads feedback_db) @
               map (\<lambda>(i, fb). (Suc (next_id feedback_db), fb_subject fb)) (feedbacks feedback_db)"
    and m: "length (messages d') =
             length (messages feedback_db) + length (feedbacks feedback_db) +
             notesCount (feedbacks feedback_db)"
    using migrateFeedbackData_guard [of feedback_db None "''now''"] no
    by (simp only: if_False) (elim exE conjE)
  have m3: "length (messages d') = 3"
    unfolding m nc by (simp add: f)
  have c2: "map (\<lambda>(i, c). (i, cli_name c)) (clients d') = [(2, ''Cliente Principal'')]"
    unfolding c by (simp add: f t)
  have th2: "map (\<lambda>(i, t). (thr_project_id t, thr_title t)) (threads d') = [(3, ''a''), (3, ''b'')]"
    unfolding th by (simp add: f example_feedback_def numeral_3_eq_3)
  have s2: "mr_client_id res = 2" using s by (simp add: f)
  have 1: "\<exists>d' res. migrateFeedbackData ''now'' None feedback_db = Inr (d', res) \<and>
      mr_success res \<and> mr_client_id res = 2 \<and>
      map (\<lambda>(i, c). (i, cli_name c)) (clients d') = [(2, ''Cliente Principal'')] \<and>
      map (\<lambda>(i, t). (thr_project_id t, thr_title t)) (threads d') = [(3, ''a''), (3, ''b'')] \<and>
      length (messages d') = 3"
    using r s(1) s2 c2 th2 m3 by (intro exI [of _ d'] exI [of _ res] conjI)
  have yes: "\<exists>i c. (i, c) \<in> set (clients client_db) \<and> cli_name c = targetName (Some [])"
    by (simp add: client_db_def empty_db_def mainClient_def t)
  have "\<exists>i c. (i, c) \<in> set (clients client_db) \<and> cli_name c = targetName (Some []) \<and>
           migrateFeedbackData ''now'' (Some []) client_db = Inr (client_db, already_migrated i)"
    using migrateFeedbackData_guard [of client_db "Some []" "''now''"] yes
    by (simp only: if_True)
  then have 2: "migrateFeedbackData ''now'' (Some []) client_db = Inr (client_db, already_migrated 0)"
    by (auto simp: client_db_def empty_db_def)
  show ?thesis using 1 2 by (rule conjI)
qed

section \<open>Unread bookkeeping on any store\<close>

text \<open>
  What \<open>sendMessage\<close> does to the row of its thread, for every store in which the thread
  exists and every call that returns.
\<close>

lemma sendTelegramAlert_threads:
  "sendTelegramAlert env t p msg a d = Inr (d', r) \<Longrightarrow> threads d' = threads d"
  by (auto simp: sendTelegramAlert_def insert_notification_def Let_def
      split: if_splits option.splits sum.splits)

lemma sendMessage_thread_row:
  assumes "tget (threads d) (sa_thread_id a) = Some th"
    and "sendMessage now env a d = Inr (d', m)"
  shows "tget (threads d') (sa_thread_id a) =
     Some (th\<lparr>thr_last_activity := now,
              unread_count_client := newUnreadClient (sa_author a) (sa_is_private a) th,
              unread_count_developer := newUnreadDeveloper (sa_author a) th\<rparr>)"
proof -
  let ?f = "\<lambda>t. t\<lparr>thr_last_activity := now,
              unread_count_client := newUnreadClient (sa_author a) (sa_is_private a) th,
              unread_count_developer := newUnreadDeveloper (sa_author a) th\<rparr>"
  have "thas (threads d) (sa_thread_id a)" using assms(1) by (rule tget_thas)
  then obtain ts where p: "tpatch (sa_thread_id a) ?f (threads d) = Inr ts"
    by (simp add: tpatch_thas)
  have g: "tget ts (sa_thread_id a) = Some (?f th)"
    using tget_tpatch [OF p, of "sa_thread_id a"] assms(1) by simp
  have "threads d' = ts"
    using assms p
    by (auto simp: sendMessage_def insert_message_def Let_def
        split: sum.splits if_splits option.splits dest: sendTelegramAlert_threads)
  then show ?thesis using g by simp
qed

text \<open>
  For a message that is not private this is the rule of the specification: the other
  role's counter goes up by one and the author's own counter is reset.
\<close>

lemma sendMessage_not_private:
  assumes "tget (threads d) (sa_thread_id a) = Some th"
    and "sendMessage now env a d = Inr (d', m)"
    and "not_private (sa_is_private a)"
  shows "\<exists>th'. tget (threads d') (sa_thread_id a) = Some th' \<and>
           thr_last_activity th' = now \<and>
           (sa_author a = Client \<longrightarrow>
              unread_count_client th' = 0 \<and>
              unread_count_developer th' = unread_count_developer th + 1) \<and>
           (sa_author a = Developer \<longrightarrow>
              unread_count_developer th' = 0 \<and>
              unread_count_client th' = unread_count_client th + 1)"
  using sendMessage_thread_row [OF assms(1,2)] assms(3)
  by (simp add: newUnreadClient_def newUnreadDeveloper_def)

text \<open>
  For a private message the author's own counter is reset all the same, and a private
  message of the client raises the developer's counter; only the client's counter is kept
  when the developer writes.
\<close>

lemma sendMessage_private:
  assumes "tget (threads d) (sa_thread_id a) = Some th"
    and "sendMessage now env a d = Inr (d', m)"
    and "sa_is_private a = Some True"
  shows "\<exists>th'. tget (threads d') (sa_thread_id a) = Some th' \<and>
           thr_last_activity th' = now \<and>
           (sa_author a = Client \<longrightarrow>
              unread_count_client th' = 0 \<and>
              unread_count_developer th' = unread_count_developer th + 1) \<and>
           (sa_author a = Developer \<longrightarrow>
              unread_count_developer th' = 0 \<and>
              unread_count_client th' = unread_count_client th)"
  using sendMessage_thread_row [OF assms(1,2)] assms(3)
  by (simp add: newUnreadClient_def newUnreadDeveloper_def not_private_def)

text \<open>\<open>addDeveloperNote\<close>, the other way to add a private note, keeps both counters.\<close>

lemma addDeveloperNote_counters:
  assumes "tget (threads d) t = Some th" and "addDeveloperNote now t note d = Inr (d', m)"
  shows "tget (threads d') t = Some (th\<lparr>thr_last_activity := now\<rparr>)"
proof -
  have "thas (threads d) t" using assms(1) by (rule tget_thas)
  then obtain ts where p: "tpatch t (\<lambda>t. t\<lparr>thr_last_activity := now\<rparr>) (threads d) = Inr ts"
    by (simp add: tpatch_thas)
  have "threads d' = ts"
    using assms(2) p by (auto simp: addDeveloperNote_def insert_message_def Let_def split: sum.splits)
  then show ?thesis using tget_tpatch [OF p, of t] assms(1) by simp
qed

text \<open>
  The total is the sum over the threads whose archive flag is present and false; a new
  thread enters it once \<open>toggleThreadArchive\<close> has written the flag.
\<close>

lemma getTotalUnreadCount_sum:
  "getTotalUnreadCount viewer d =
     sum_list (map (\<lambda>(i, t). unreadCount viewer t)
       (filter (\<lambda>(i, t). thr_is_archived t = Some False) (threads d)))"
proof -
  have f: "foldl (\<lambda>total (i, thread). total + unreadCount viewer thread) n xs =
        n + sum_list (map (\<lambda>(i, t). unreadCount viewer t) xs)" for n xs
    by (induction xs arbitrary: n) (auto simp: split_beta)
  show ?thesis unfolding getTotalUnreadCount_def f by simp
qed

lemma unarchived_thread_counts:
  "map_sum id (\<lambda>(d, i). map_sum id (getTotalUnreadCount Developer)
                           (toggleThreadArchive ''now3'' i False d))
     (createThread ''now'' ''now2'' example_env (new_thread_args (Some Client) None) project_db)
   = Inr (Inr 1)"
  by (simp add: example_defs run_defs toggleThreadArchive_def)

text \<open>
  \<open>createThread\<close> with the creator given, on a well-formed store: the creator's counter
  is 0 and the other role's counter is 2 with an initial message and 1 without.
\<close>

lemma tget_append_fresh:
  "i \<notin> fst ` set t \<Longrightarrow> tget (t @ [(i, r)]) i = Some r"
  by (simp add: tget_def map_add_Some_iff map_of_eq_None_iff)

lemma createThread_counters:
  assumes "wf_db d" and "createThread now now_msg env a d = Inr (d', tid)"
    and "ca_created_by a = Some r"
  shows "\<exists>th. tget (threads d') tid = Some th \<and>
           unreadCount r th = 0 \<and>
           unreadCount (if r = Client then Developer else Client) th =
             (if truthy (ca_initial_message a) then 2 else 1)"
proof -
  let ?n = "next_id d"
  let ?row = "\<lparr>thr_project_id = ca_project_id a,
             thr_title = ca_title a,
             thr_status = TNew,
             thr_priority = (case ca_priority a of None \<Rightarrow> Normal | Some p \<Rightarrow> p),
             thr_created_by = (case ca_created_by a of None \<Rightarrow> Client | Some r \<Rightarrow> r),
             thr_last_activity = now,
             unread_count_client = (if ca_created_by a = Some Developer then 1 else 0),
             unread_count_developer = (if ca_created_by a = Some Client then 1 else 0),
             thr_is_archived = None,
             thr_created_at = now\<rparr>"
  let ?d1 = "d\<lparr>threads := threads d @ [(?n, ?row)], next_id := Suc ?n\<rparr>"
  let ?sa = "\<lparr>sa_thread_id = ?n,
                 sa_content = (if truthy (ca_translated_content a)
                               then the (ca_translated_content a)
                               else the (ca_initial_message a)),
                 sa_author = (case ca_created_by a of None \<Rightarrow> Client | Some r \<Rightarrow> r),
                 sa_message_type = Some MText,
                 sa_is_private = Some False,
                 sa_original_content = ca_original_content a,
                 sa_original_language = ca_original_language a,
                 sa_translated_content = ca_translated_content a,
                 sa_target_language = ca_target_language a,
                 sa_translation_enabled = ca_translation_enabled a\<rparr>"
  have "?n \<notin> fst ` set (threads d)"
    using assms(1) by (auto simp: wf_db_def wf_table_def)
  then have g1: "tget (threads ?d1) ?n = Some ?row"
    by (simp add: tget_append_fresh)
  have unf: "createThread now now_msg env a d =
      (case (if truthy (ca_initial_message a)
             then (case sendMessage now_msg env ?sa ?d1 of
                     Inl e \<Rightarrow> Inl e | Inr (d2, _) \<Rightarrow> Inr d2)
             else Inr ?d1) of
         Inl e \<Rightarrow> Inl e
       | Inr d2 \<Rightarrow>
          (case tpatch (ca_project_id a) (\<lambda>p. p\<lparr>prj_updated_at := now\<rparr>) (projects d2) of
             Inl e \<Rightarrow> Inl e
           | Inr ps \<Rightarrow> Inr (d2\<lparr>projects := ps\<rparr>, ?n)))"
    by (simp add: createThread_def insert_thread_def Let_def)
  show ?thesis
  proof (cases "truthy (ca_initial_message a)")
    case True
    obtain d2 m where s: "sendMessage now_msg env ?sa ?d1 = Inr (d2, m)"
      and e: "threads d' = threads d2" "tid = ?n"
      using assms(2) True unfolding unf
      by (auto split: sum.splits)
    have g: "tget (threads ?d1) (sa_thread_id ?sa) = Some ?row" using g1 by simp
    show ?thesis
      using sendMessage_thread_row [OF g s] e assms(3)
      by (cases r) (simp_all add: True unreadCount_def newUnreadClient_def newUnreadDeveloper_def
          not_private_def)
  next
    case False
    have e: "threads d' = threads ?d1" "tid = ?n"
      using assms(2) False unfolding unf by (auto split: sum.splits)
    show ?thesis
      using g1 e assms(3) by (cases r) (simp_all add: False unreadCount_def)
  qed
qed

section \<open>Counting in UTF-16 units\<close>

text \<open>
  A two-byte and a four-byte character count one and two units; a cut keeps whole
  characters, and a cut inside a four-byte character leaves the first unit of its pair
  (here U+1F4AC, whose first unit is D83D).
\<close>

lemma utf16_examples:
  "utf16_length [CHR 0xC3, CHR 0xB1, CHR 0xF0, CHR 0x9F, CHR 0x92, CHR 0xAC] = 3 \<and>
   utf16_take 2 [CHR ''a'', CHR 0xC3, CHR 0xB1, CHR ''b''] = [CHR ''a'', CHR 0xC3, CHR 0xB1] \<and>
   utf16_take 3 [CHR ''a'', CHR 0xF0, CHR 0x9F, CHR 0x92, CHR 0xAC, CHR ''b''] =
     [CHR ''a'', CHR 0xF0, CHR 0x9F, CHR 0x92, CHR 0xAC] \<and>
   map of_char (utf16_take 2 [CHR ''a'', CHR 0xF0, CHR 0x9F, CHR 0x92, CHR 0xAC, CHR ''b'']) =
     [0x61, 0xED, 0xA0, 0xBD :: nat]"
  by (simp add: utf16_length_def utf16_units_def is_continuation_def high_surrogate_def)

end
